theory Spec2Isabelle
  imports Complex_Main
begin

section \<open>Bytes, strings and the platform functions the code calls\<close>

text \<open>
  A \<^verbatim>\<open>Buffer\<close> is a list of bytes. A JavaScript string is kept as its UTF-8 encoding, a
  well-formed byte sequence: \<^verbatim>\<open>buf.toString('utf8', a, b)\<close> decodes with replacement of
  ill-formed input (below), and \<^verbatim>\<open>Buffer.from(s, 'utf8')\<close> is the identity. Searching a
  string for an ASCII character and cutting it there gives the same pieces on the bytes as
  on the UTF-16 code units.
\<close>

type_synonym bytes = "char list"

text \<open>The line terminator CR LF.\<close>

definition crlf :: bytes where "crlf = [CHR 0x0D, CHR 0x0A]"

text \<open>\<^verbatim>\<open>buf[i]\<close>: \<^verbatim>\<open>undefined\<close> outside the buffer.\<close>

definition buf_at :: "bytes \<Rightarrow> int \<Rightarrow> char option" where
  "buf_at buf i = (if 0 \<le> i \<and> i < int (length buf) then Some (buf ! nat i) else None)"

text \<open>\<^verbatim>\<open>buf.subarray(b, e)\<close>: negative indices count from the end, all indices are clamped.\<close>

definition subarray :: "bytes \<Rightarrow> int \<Rightarrow> int \<Rightarrow> bytes" where
  "subarray buf b e =
     (let n = int (length buf);
          rel = (\<lambda>i. if i < 0 then max (n + i) 0 else min i n)
      in take (nat (rel e - rel b)) (drop (nat (rel b)) buf))"

text \<open>\<^verbatim>\<open>buf.indexOf('\r\n', start)\<close> for \<open>start\<close> inside the buffer: the first position at or
  after \<open>start\<close> where CR LF begins, \<open>None\<close> for \<^verbatim>\<open>-1\<close>.\<close>

fun find_crlf :: "bytes \<Rightarrow> nat option" where
  "find_crlf (a # b # r) =
     (if a = CHR 0x0D \<and> b = CHR 0x0A then Some 0 else map_option Suc (find_crlf (b # r)))"
| "find_crlf _ = None"

definition indexOf_crlf :: "bytes \<Rightarrow> nat \<Rightarrow> nat option" where
  "indexOf_crlf buf start = map_option (\<lambda>i. i + start) (find_crlf (drop start buf))"

text \<open>
  UTF-8 decoding with replacement: every maximal ill-formed part of the input becomes
  U+FFFD, which is then kept as its own encoding \<^verbatim>\<open>EF BF BD\<close>. \<open>utf8_lead\<close> gives, for a
  lead byte, the number of continuation bytes and the range allowed for the first of them;
  \<open>utf8_cont\<close> counts how many of the expected continuation bytes are there.
\<close>

definition utf8_lead :: "int \<Rightarrow> (nat \<times> int \<times> int) option" where
  "utf8_lead b =
     (if 0xC2 \<le> b \<and> b \<le> 0xDF then Some (1, 0x80, 0xBF)
      else if b = 0xE0 then Some (2, 0xA0, 0xBF)
      else if b = 0xED then Some (2, 0x80, 0x9F)
      else if 0xE1 \<le> b \<and> b \<le> 0xEF then Some (2, 0x80, 0xBF)
      else if b = 0xF0 then Some (3, 0x90, 0xBF)
      else if 0xF1 \<le> b \<and> b \<le> 0xF3 then Some (3, 0x80, 0xBF)
      else if b = 0xF4 then Some (3, 0x80, 0x8F)
      else None)"

fun utf8_cont :: "nat \<Rightarrow> int \<Rightarrow> int \<Rightarrow> bytes \<Rightarrow> nat" where
  "utf8_cont (Suc k) lo hi (x # r) =
     (if lo \<le> of_char x \<and> of_char x \<le> hi then Suc (utf8_cont k 0x80 0xBF r) else 0)"
| "utf8_cont k lo hi r = 0"

fun utf8_replace :: "bytes \<Rightarrow> string" where
  "utf8_replace [] = []"
| "utf8_replace (c # r) =
     (if (of_char c :: int) < 0x80 then c # utf8_replace r
      else case utf8_lead (of_char c) of
             None \<Rightarrow> [CHR 0xEF, CHR 0xBF, CHR 0xBD] @ utf8_replace r
           | Some (need, lo, hi) \<Rightarrow>
               if utf8_cont need lo hi r = need
               then c # take need r @ utf8_replace (drop need r)
               else [CHR 0xEF, CHR 0xBF, CHR 0xBD]
                    @ utf8_replace (drop (utf8_cont need lo hi r) r))"

text \<open>\<^verbatim>\<open>buf.toString('utf8', a, b)\<close> for \<open>0 \<le> a\<close>: empty when \<open>b \<le> a\<close>.\<close>

definition toString_utf8 :: "bytes \<Rightarrow> nat \<Rightarrow> nat \<Rightarrow> string" where
  "toString_utf8 buf a b = utf8_replace (take (b - a) (drop a buf))"

text \<open>\<^verbatim>\<open>s.indexOf(c)\<close> on a string, \<open>None\<close> for \<^verbatim>\<open>-1\<close>.\<close>

fun indexOf_char :: "string \<Rightarrow> char \<Rightarrow> nat option" where
  "indexOf_char [] c = None"
| "indexOf_char (x # xs) c = (if x = c then Some 0 else map_option Suc (indexOf_char xs c))"

definition is_digit :: "char \<Rightarrow> bool" where
  "is_digit c = (c \<in> set ''0123456789'')"

definition digit_val :: "char \<Rightarrow> int" where
  "digit_val c = of_char c - 48"

definition digits_val :: "string \<Rightarrow> int" where
  "digits_val ds = foldl (\<lambda>a c. 10 * a + digit_val c) 0 ds"

text \<open>
  The white space that \<^verbatim>\<open>BigInt\<close>, \<^verbatim>\<open>parseInt\<close> and \<^verbatim>\<open>parseFloat\<close> skip (ECMAScript
  \<^verbatim>\<open>WhiteSpace\<close> and \<^verbatim>\<open>LineTerminator\<close>), each code point as its UTF-8 bytes: TAB, LF, VT,
  FF, CR, SP, U+00A0, U+1680, U+2000 to U+200A, U+2028, U+2029, U+202F, U+205F, U+3000 and
  U+FEFF.
\<close>

definition white_space :: "bytes list" where
  "white_space =
     [[CHR 0x09], [CHR 0x0A], [CHR 0x0B], [CHR 0x0C], [CHR 0x0D], [CHR 0x20],
      [CHR 0xC2, CHR 0xA0], [CHR 0xE1, CHR 0x9A, CHR 0x80],
      [CHR 0xE2, CHR 0x80, CHR 0x80], [CHR 0xE2, CHR 0x80, CHR 0x81],
      [CHR 0xE2, CHR 0x80, CHR 0x82], [CHR 0xE2, CHR 0x80, CHR 0x83],
      [CHR 0xE2, CHR 0x80, CHR 0x84], [CHR 0xE2, CHR 0x80, CHR 0x85],
      [CHR 0xE2, CHR 0x80, CHR 0x86], [CHR 0xE2, CHR 0x80, CHR 0x87],
      [CHR 0xE2, CHR 0x80, CHR 0x88], [CHR 0xE2, CHR 0x80, CHR 0x89],
      [CHR 0xE2, CHR 0x80, CHR 0x8A], [CHR 0xE2, CHR 0x80, CHR 0xA8],
      [CHR 0xE2, CHR 0x80, CHR 0xA9], [CHR 0xE2, CHR 0x80, CHR 0xAF],
      [CHR 0xE2, CHR 0x81, CHR 0x9F], [CHR 0xE3, CHR 0x80, CHR 0x80],
      [CHR 0xEF, CHR 0xBB, CHR 0xBF]]"

text \<open>The length of the token of \<open>ws\<close> that \<open>s\<close> starts with, 0 when there is none.\<close>

definition token_length :: "bytes list \<Rightarrow> string \<Rightarrow> nat" where
  "token_length ws s =
     (case find (\<lambda>w. take (length w) s = w) ws of None \<Rightarrow> 0 | Some w \<Rightarrow> length w)"

fun skip_tokens :: "bytes list \<Rightarrow> string \<Rightarrow> string" where
  "skip_tokens ws [] = []"
| "skip_tokens ws (c # r) =
     (if token_length ws (c # r) = 0 then c # r
      else skip_tokens ws (drop (token_length ws (c # r) - 1) r))"

definition skip_space :: "string \<Rightarrow> string" where
  "skip_space s = skip_tokens white_space s"

definition trim :: "string \<Rightarrow> string" where
  "trim s = rev (skip_tokens (map rev white_space) (rev (skip_space s)))"

text \<open>\<^verbatim>\<open>s.toLowerCase()\<close> on the ASCII letters. The code only compares the result with
  \<^verbatim>\<open>inf\<close>, \<^verbatim>\<open>-inf\<close> and \<^verbatim>\<open>nan\<close>, and no character outside ASCII has one of their letters
  as its lower case.\<close>

definition toLowerCase :: "string \<Rightarrow> string" where
  "toLowerCase s =
     map (\<lambda>c. if (65::int) \<le> of_char c \<and> of_char c \<le> (90::int)
                then char_of (of_char c + (32::int)) else c) s"

text \<open>Decimal digits of a non-negative integer and of an integer
  (\<^verbatim>\<open>bigint.toString()\<close>, and \<^verbatim>\<open>n.toString()\<close> on a small integer).\<close>

function digits_of :: "int \<Rightarrow> string" where
  "digits_of n =
     (if n < 10 then [char_of (48 + n)]
      else digits_of (n div 10) @ [char_of (48 + n mod 10)])"
  by pat_completeness auto
termination
  by (relation "measure nat") auto

declare digits_of.simps [simp del]

definition string_of_int :: "int \<Rightarrow> string" where
  "string_of_int i = (if i < 0 then ''-'' @ digits_of (- i) else digits_of i)"

subsection \<open>Numbers\<close>

text \<open>
  A JavaScript \<^verbatim>\<open>number\<close>, an IEEE 754 binary64 value: not a number, the two
  infinities, negative zero, or a finite value kept as the rational it denotes (zero for
  positive zero). The conversions below round to the nearest binary64 value, ties to even.
\<close>

datatype js_number = NaN | PosInf | NegInf | NegZero | Finite rat

function bit_length :: "int \<Rightarrow> nat" where
  "bit_length n = (if n \<le> 0 then 0 else Suc (bit_length (n div 2)))"
  by pat_completeness auto
termination
  by (relation "measure nat") auto

declare bit_length.simps [simp del]

text \<open>Round a non-negative integer to the nearest binary64 value, ties to even
  (53 bits of significand).\<close>

definition round53 :: "int \<Rightarrow> int" where
  "round53 a =
     (if a < 2 ^ 53 then a
      else let e = bit_length a - 53;
               q = a div 2 ^ e;
               r = a mod 2 ^ e;
               h = 2 ^ (e - 1)
           in (if r > h \<or> (r = h \<and> odd q) then q + 1 else q) * 2 ^ e)"

text \<open>\<^verbatim>\<open>Number(v)\<close> on a bigint \<open>v\<close>: the nearest binary64 value, infinite from
  \<open>2 ^ 1024\<close> on.\<close>

definition Number :: "int \<Rightarrow> js_number" where
  "Number v =
     (let r = round53 \<bar>v\<bar>
      in if r \<ge> 2 ^ 1024 then (if v < 0 then NegInf else PosInf)
         else Finite (of_int (if v < 0 then - r else r)))"

text \<open>Powers of two and of ten with an integer exponent.\<close>

definition pow2 :: "int \<Rightarrow> rat" where
  "pow2 e = (if e \<ge> 0 then 2 ^ nat e else 1 / 2 ^ nat (- e))"

definition pow10 :: "int \<Rightarrow> rat" where
  "pow10 e = (if e \<ge> 0 then 10 ^ nat e else 1 / 10 ^ nat (- e))"

text \<open>For \<open>q > 0\<close>, the \<open>d\<close> with \<open>2 ^ d \<le> q < 2 ^ (d + 1)\<close>.\<close>

definition floor_log2 :: "rat \<Rightarrow> int" where
  "floor_log2 q =
     (let d = int (bit_length (fst (quotient_of q))) - int (bit_length (snd (quotient_of q)))
      in if pow2 d \<le> q then d else d - 1)"

definition round_half_even :: "rat \<Rightarrow> int" where
  "round_half_even r =
     (let f = \<lfloor>r\<rfloor>; d = r - of_int f
      in if d > 1 / 2 \<or> (d = 1 / 2 \<and> odd f) then f + 1 else f)"

text \<open>The binary64 value nearest to a rational: 53 bits of significand, the least
  exponent \<open>- 1074\<close>, infinite from \<open>2 ^ 1024\<close> on, and a zero that keeps the sign.\<close>

definition to_binary64 :: "rat \<Rightarrow> js_number" where
  "to_binary64 q =
     (if q = 0 then Finite 0
      else
        let a = \<bar>q\<bar>;
            e = max (floor_log2 a - 52) (- 1074);
            v = of_int (round_half_even (a / pow2 e)) * pow2 e
        in if v \<ge> 2 ^ 1024 then (if q < 0 then NegInf else PosInf)
           else if v = 0 then (if q < 0 then NegZero else Finite 0)
           else Finite (if q < 0 then - v else v))"

text \<open>\<^verbatim>\<open>Number.parseInt(s, 10)\<close>: leading white space, an optional sign, then the
  longest run of decimal digits; \<^verbatim>\<open>NaN\<close> when there is none, negative zero for a
  negated zero.\<close>

definition parseInt :: "string \<Rightarrow> js_number" where
  "parseInt s =
     (let s1 = skip_space s;
          neg = (s1 \<noteq> [] \<and> hd s1 = CHR ''-'');
          s2 = (if s1 \<noteq> [] \<and> (hd s1 = CHR ''-'' \<or> hd s1 = CHR ''+'') then tl s1 else s1);
          ds = takeWhile is_digit s2
      in if ds = [] then NaN
         else if neg \<and> digits_val ds = 0 then NegZero
         else Number (if neg then - digits_val ds else digits_val ds))"

text \<open>\<^verbatim>\<open>BigInt(s)\<close> on a string: surrounding white space is dropped; the empty string is
  zero; an optionally signed decimal numeral, or an unsigned numeral with prefix
  \<^verbatim>\<open>0x\<close>, \<^verbatim>\<open>0o\<close> or \<^verbatim>\<open>0b\<close>, is its value; anything else throws (\<open>None\<close>).\<close>

definition hex_val :: "char \<Rightarrow> int option" where
  "hex_val c =
     (if is_digit c then Some (digit_val c)
      else if c \<in> set ''abcdef'' then Some (of_char c - 87)
      else if c \<in> set ''ABCDEF'' then Some (of_char c - 55)
      else None)"

definition radix_val :: "int \<Rightarrow> string \<Rightarrow> int option" where
  "radix_val b ds =
     (if ds \<noteq> [] \<and> list_all (\<lambda>c. case hex_val c of None \<Rightarrow> False | Some d \<Rightarrow> d < b) ds
      then Some (foldl (\<lambda>a c. b * a + the (hex_val c)) 0 ds)
      else None)"

definition BigInt :: "string \<Rightarrow> int option" where
  "BigInt s =
     (let t = trim s
      in if t = [] then Some 0
         else if take 2 t = ''0x'' \<or> take 2 t = ''0X'' then radix_val 16 (drop 2 t)
         else if take 2 t = ''0o'' \<or> take 2 t = ''0O'' then radix_val 8 (drop 2 t)
         else if take 2 t = ''0b'' \<or> take 2 t = ''0B'' then radix_val 2 (drop 2 t)
         else if hd t = CHR ''-'' then map_option uminus (radix_val 10 (tl t))
         else if hd t = CHR ''+'' then radix_val 10 (tl t)
         else radix_val 10 t)"

text \<open>\<^verbatim>\<open>Number.parseFloat(s)\<close>: leading white space, an optional sign, then
  \<^verbatim>\<open>Infinity\<close> or the longest decimal literal (digits, fraction, exponent);
  \<^verbatim>\<open>NaN\<close> when there is none. The value of the literal is rounded to binary64.\<close>

definition parseExponent :: "string \<Rightarrow> int" where
  "parseExponent r =
     (if r \<noteq> [] \<and> (hd r = CHR ''e'' \<or> hd r = CHR ''E'') then
        (let r1 = tl r;
             neg = (r1 \<noteq> [] \<and> hd r1 = CHR ''-'');
             r2 = (if r1 \<noteq> [] \<and> (hd r1 = CHR ''-'' \<or> hd r1 = CHR ''+'') then tl r1 else r1);
             ds = takeWhile is_digit r2
         in if ds = [] then 0 else if neg then - digits_val ds else digits_val ds)
      else 0)"

definition parseFloat :: "string \<Rightarrow> js_number" where
  "parseFloat s =
     (let s1 = skip_space s;
          neg = (s1 \<noteq> [] \<and> hd s1 = CHR ''-'');
          s2 = (if s1 \<noteq> [] \<and> (hd s1 = CHR ''-'' \<or> hd s1 = CHR ''+'') then tl s1 else s1)
      in if take 8 s2 = ''Infinity'' then (if neg then NegInf else PosInf)
         else
           let ip = takeWhile is_digit s2;
               r1 = dropWhile is_digit s2;
               fp = (if r1 \<noteq> [] \<and> hd r1 = CHR ''.'' then takeWhile is_digit (tl r1) else []);
               r2 = (if r1 \<noteq> [] \<and> hd r1 = CHR ''.'' then dropWhile is_digit (tl r1) else r1);
               ex = parseExponent r2 - int (length fp);
               m = (of_int (digits_val (ip @ fp)) :: rat);
               v = (if ex < 0 then m / 10 ^ nat (- ex) else m * 10 ^ nat ex)
           in if ip = [] \<and> fp = [] then NaN
              else if m = 0 then (if neg then NegZero else Finite 0)
              else to_binary64 (if neg then - v else v))"

text \<open>
  \<^verbatim>\<open>x.toString()\<close> on a number (ECMAScript Number::toString, radix 10). For a finite
  \<open>x > 0\<close> it takes integers \<open>n\<close>, \<open>k \<ge> 1\<close> and \<open>s\<close> with \<open>10 ^ (k - 1) \<le> s < 10 ^ k\<close> such
  that \<open>s * 10 ^ (n - k)\<close> rounds to \<open>x\<close> and \<open>k\<close> is as small as possible, the \<open>s\<close> nearest
  to \<open>x\<close> when there are several; it prints plain notation for \<open>- 6 < n \<le> 21\<close> and exponent
  notation otherwise.
\<close>

text \<open>For \<open>q > 0\<close>, the \<open>d\<close> with \<open>10 ^ d \<le> q < 10 ^ (d + 1)\<close>.\<close>

definition floor_log10 :: "rat \<Rightarrow> int" where
  "floor_log10 q =
     (if q \<ge> 1 then int (length (digits_of \<lfloor>q\<rfloor>)) - 1
      else case find (\<lambda>j. q * 10 ^ j \<ge> 1)
                  [1 ..< Suc (length (digits_of (snd (quotient_of q))))] of
             Some j \<Rightarrow> - int j
           | None \<Rightarrow> 0)"

text \<open>The numbers \<open>c\<close> next to \<open>q / 10 ^ ex\<close> for which \<open>c * 10 ^ ex\<close> rounds to \<open>q\<close>, and the
  one of them that is nearest to \<open>q\<close> (the even one on a tie).\<close>

definition candidates :: "rat \<Rightarrow> int \<Rightarrow> int list" where
  "candidates q ex =
     filter (\<lambda>c. to_binary64 (of_int c * pow10 ex) = Finite q)
       [\<lfloor>q / pow10 ex\<rfloor>, \<lfloor>q / pow10 ex\<rfloor> + 1]"

definition nearest :: "rat \<Rightarrow> int \<Rightarrow> int list \<Rightarrow> int" where
  "nearest q ex cs =
     (case cs of
        [c1, c2] \<Rightarrow>
          if \<bar>of_int c1 * pow10 ex - q\<bar> < \<bar>of_int c2 * pow10 ex - q\<bar> then c1
          else if \<bar>of_int c2 * pow10 ex - q\<bar> < \<bar>of_int c1 * pow10 ex - q\<bar> then c2
          else if even c1 then c1 else c2
      | [c] \<Rightarrow> c
      | _ \<Rightarrow> \<lfloor>q / pow10 ex\<rfloor>)"

text \<open>The shortest decimal \<open>c * 10 ^ ex\<close> that reads back as \<open>q\<close>; 17 digits always do for
  a binary64 value.\<close>

definition shortest_decimal :: "rat \<Rightarrow> int \<times> int" where
  "shortest_decimal q =
     (let n = floor_log10 q + 1
      in case find (\<lambda>k. candidates q (n - int k) \<noteq> []) [1 ..< 18] of
           Some k \<Rightarrow> (nearest q (n - int k) (candidates q (n - int k)), n - int k)
         | None \<Rightarrow> (\<lfloor>q / pow10 (n - 17)\<rfloor>, n - 17))"

definition positiveToString :: "rat \<Rightarrow> string" where
  "positiveToString q =
     (case shortest_decimal q of
        (c, ex) \<Rightarrow>
          let ds = digits_of c;
              z = length (takeWhile (\<lambda>c. c = CHR ''0'') (rev ds));
              s = take (length ds - z) ds;
              k = int (length s);
              n = int (length ds) + ex
          in if k \<le> n \<and> n \<le> 21 then s @ replicate (nat (n - k)) (CHR ''0'')
             else if 0 < n \<and> n \<le> 21 then take (nat n) s @ ''.'' @ drop (nat n) s
             else if - 6 < n \<and> n \<le> 0 then ''0.'' @ replicate (nat (- n)) (CHR ''0'') @ s
             else (if k = 1 then s else [hd s] @ ''.'' @ tl s)
                  @ ''e'' @ (if n - 1 < 0 then ''-'' else ''+'') @ digits_of \<bar>n - 1\<bar>)"

definition numberToString :: "js_number \<Rightarrow> string" where
  "numberToString x =
     (case x of
        NaN \<Rightarrow> ''NaN''
      | PosInf \<Rightarrow> ''Infinity''
      | NegInf \<Rightarrow> ''-Infinity''
      | NegZero \<Rightarrow> ''0''
      | Finite q \<Rightarrow>
          if q = 0 then ''0''
          else if q < 0 then ''-'' @ positiveToString (- q)
          else positiveToString q)"

section \<open>The RESP3 value model\<close>

text \<open>
  \<^verbatim>\<open>Resp3\<close> of the parser module: a node has a type tag with its payload and an optional
  \<^verbatim>\<open>attributes\<close> map. The keys of every \<^verbatim>\<open>Map\<close> and the members of every \<^verbatim>\<open>Set\<close>
  the parser builds are freshly allocated node objects, which JavaScript compares by
  identity, so no two of them coincide: a \<^verbatim>\<open>Map\<close> is the list of its entries and a
  \<^verbatim>\<open>Set\<close> the list of its members, in insertion order. A map entry read past the end of
  the collected items has the value \<^verbatim>\<open>undefined\<close> (\<open>None\<close>).
\<close>

datatype resp3 = Resp3 (body: body) (attributes: "(resp3 \<times> resp3 option) list option")
and body =
    Simple_string string
  | Error "string option" string
  | Integer int
  | Double js_number
  | Big_number "int + string"
  | Boolean bool
  | Null
  | Blob_string "bytes option"
  | Blob_error "string option" string
  | Verbatim_string string string
  | Array "resp3 list option"
  | Mapv "(resp3 \<times> resp3 option) list option"
  | Setv "resp3 list option"
  | Push "resp3 list"

type_synonym Resp3Attributes = "(resp3 \<times> resp3 option) list"

text \<open>A node without attributes.\<close>

abbreviation plain :: "body \<Rightarrow> resp3" where
  "plain b \<equiv> Resp3 b None"

datatype AggregateKind = array_k | map_k | set_k | attributes_k | push_k

record Frame =
  kind :: AggregateKind
  remaining :: int
  items :: "resp3 list"
  attrs :: "Resp3Attributes option"

text \<open>What the parser throws.\<close>

datatype decode_error =
    Invalid_integer string
  | Blob_not_terminated
  | Invalid_verbatim_length
  | Verbatim_not_terminated
  | Invalid_null_marker
  | Invalid_boolean string
  | Invalid_double string
  | Invalid_length string
  | Unknown_prefix char
  | TypeError_undefined_frame

text \<open>What a parse step returns: a node, \<^verbatim>\<open>NEED_MORE\<close> or \<^verbatim>\<open>undefined\<close>.\<close>

datatype parsed = Node resp3 | NEED_MORE | Undefined

text \<open>\<^verbatim>\<open>ParserOptions\<close>: which sinks are wired. The sinks collect what they receive and do
  not throw; \<^verbatim>\<open>decodeBlobAsString\<close> is at its default \<^verbatim>\<open>false\<close>.\<close>

record ParserOptions =
  onReply :: bool
  onPush :: bool
  onError :: bool

datatype emitted = Reply resp3 | Pushed resp3 | Failed decode_error

record Resp3Parser =
  buffer :: bytes
  offset :: int
  frames :: "Frame list"
  pendingAttributes :: "Resp3Attributes option"

definition new_parser :: Resp3Parser where
  "new_parser = \<lparr>buffer = [], offset = 0, frames = [], pendingAttributes = None\<rparr>"

text \<open>A parse step either throws or returns with the parser as it left it.\<close>

type_synonym step = "decode_error + (parsed \<times> Resp3Parser)"

section \<open>The decoder\<close>

definition attachAttrs :: "resp3 \<Rightarrow> Resp3Parser \<Rightarrow> resp3 \<times> Resp3Parser" where
  "attachAttrs node p =
     (case pendingAttributes p of
        Some a \<Rightarrow> (Resp3 (body node) (Some a), p\<lparr>pendingAttributes := None\<rparr>)
      | None \<Rightarrow> (node, p))"

definition attachExplicitAttrs :: "resp3 \<Rightarrow> Resp3Attributes option \<Rightarrow> resp3" where
  "attachExplicitAttrs node a =
     (case a of Some x \<Rightarrow> Resp3 (body node) (Some x) | None \<Rightarrow> node)"

text \<open>Return a freshly built node through \<^verbatim>\<open>attachAttrs\<close>.\<close>

definition produce :: "body \<Rightarrow> Resp3Parser \<Rightarrow> step" where
  "produce b p = (case attachAttrs (plain b) p of (node, p') \<Rightarrow> Inr (Node node, p'))"

text \<open>\<^verbatim>\<open>readLine\<close>: the text between the prefix byte at \<open>offset\<close> and the next CR LF;
  the offset moves past the CR LF. \<open>None\<close> is \<^verbatim>\<open>NEED_MORE\<close>. It is called with the
  prefix byte present, so \<open>offset\<close> is inside the buffer.\<close>

definition readLine :: "Resp3Parser \<Rightarrow> (string \<times> Resp3Parser) option" where
  "readLine p =
     (case indexOf_crlf (buffer p) (nat (offset p)) of
        None \<Rightarrow> None
      | Some i \<Rightarrow>
          Some (toString_utf8 (buffer p) (nat (offset p) + 1) i, p\<lparr>offset := int i + 2\<rparr>))"

text \<open>\<^verbatim>\<open>readLenAfterPrefix\<close>: the same line read by \<^verbatim>\<open>parseInt\<close>; a result that is not
  a finite integer throws.\<close>

definition readLenAfterPrefix :: "Resp3Parser \<Rightarrow> decode_error + (int \<times> Resp3Parser) option" where
  "readLenAfterPrefix p =
     (case indexOf_crlf (buffer p) (nat (offset p) + 1) of
        None \<Rightarrow> Inr None
      | Some i \<Rightarrow>
          let s = toString_utf8 (buffer p) (nat (offset p) + 1) i
          in (case parseInt s of
                Finite n \<Rightarrow> Inr (Some (\<lfloor>n\<rfloor>, p\<lparr>offset := int i + 2\<rparr>))
              | NegZero \<Rightarrow> Inr (Some (0, p\<lparr>offset := int i + 2\<rparr>))
              | _ \<Rightarrow> Inl (Invalid_length s)))"

definition ensure :: "Resp3Parser \<Rightarrow> int \<Rightarrow> bool" where
  "ensure p n = (int (length (buffer p)) - offset p \<ge> n)"

text \<open>The optional code of an error text: the part before the first space, when that
  space is not the first character.\<close>

definition split_code :: "string \<Rightarrow> string option \<times> string" where
  "split_code line =
     (case indexOf_char line (CHR '' '') of
        Some sp \<Rightarrow> if sp > 0 then (Some (take sp line), drop (sp + 1) line) else (None, line)
      | None \<Rightarrow> (None, line))"

definition parseSimpleString :: "Resp3Parser \<Rightarrow> step" where
  "parseSimpleString p =
     (if buf_at (buffer p) (offset p) \<noteq> Some (CHR ''+'') then Inr (NEED_MORE, p)
      else case readLine p of
             None \<Rightarrow> Inr (NEED_MORE, p)
           | Some (line, p') \<Rightarrow> produce (Simple_string line) p')"

definition parseError :: "Resp3Parser \<Rightarrow> step" where
  "parseError p =
     (if buf_at (buffer p) (offset p) \<noteq> Some (CHR ''-'') then Inr (NEED_MORE, p)
      else case readLine p of
             None \<Rightarrow> Inr (NEED_MORE, p)
           | Some (line, p') \<Rightarrow>
               (case split_code line of (code, message) \<Rightarrow> produce (Error code message) p'))"

definition parseInteger :: "Resp3Parser \<Rightarrow> step" where
  "parseInteger p =
     (if buf_at (buffer p) (offset p) \<noteq> Some (CHR '':'') then Inr (NEED_MORE, p)
      else case readLine p of
             None \<Rightarrow> Inr (NEED_MORE, p)
           | Some (line, p') \<Rightarrow>
               (case BigInt line of
                  Some v \<Rightarrow> produce (Integer v) p'
                | None \<Rightarrow> Inl (Invalid_integer line)))"

text \<open>\<^verbatim>\<open>parseBlobStringLike\<close>. The length is whatever \<^verbatim>\<open>parseInt\<close> gave, so the offset
  is moved by it also when it is negative.\<close>

definition parseBlobStringLike :: "bool \<Rightarrow> Resp3Parser \<Rightarrow> step" where
  "parseBlobStringLike isBlobErr p =
     (if buf_at (buffer p) (offset p) \<noteq> Some (if isBlobErr then CHR ''!'' else CHR ''$'')
      then Inr (NEED_MORE, p)
      else case readLenAfterPrefix p of
             Inl e \<Rightarrow> Inl e
           | Inr None \<Rightarrow> Inr (NEED_MORE, p)
           | Inr (Some (len, p1)) \<Rightarrow>
               if len = - 1 then
                 (if isBlobErr then produce (Blob_error None []) p1
                  else produce (Blob_string None) p1)
               else if \<not> ensure p1 (len + 2) then Inr (NEED_MORE, p1)
               else
                 let payload = subarray (buffer p1) (offset p1) (offset p1 + len);
                     p2 = p1\<lparr>offset := offset p1 + len\<rparr>
                 in if \<not> ensure p2 2 then Inr (NEED_MORE, p2)
                    else if \<not> (buf_at (buffer p2) (offset p2) = Some (CHR 0x0D)
                                \<and> buf_at (buffer p2) (offset p2 + 1) = Some (CHR 0x0A))
                    then Inl Blob_not_terminated
                    else
                      let p3 = p2\<lparr>offset := offset p2 + 2\<rparr>
                      in if isBlobErr then
                           (case split_code (utf8_replace payload) of
                              (code, message) \<Rightarrow> produce (Blob_error code message) p3)
                         else produce (Blob_string (Some payload)) p3)"

definition parseVerbatimString :: "Resp3Parser \<Rightarrow> step" where
  "parseVerbatimString p =
     (if buf_at (buffer p) (offset p) \<noteq> Some (CHR ''='') then Inr (NEED_MORE, p)
      else case readLenAfterPrefix p of
             Inl e \<Rightarrow> Inl e
           | Inr None \<Rightarrow> Inr (NEED_MORE, p)
           | Inr (Some (len, p1)) \<Rightarrow>
               if len < 0 then Inl Invalid_verbatim_length
               else if \<not> ensure p1 (len + 2) then Inr (NEED_MORE, p1)
               else
                 let payload = subarray (buffer p1) (offset p1) (offset p1 + len);
                     p2 = p1\<lparr>offset := offset p1 + len\<rparr>
                 in if \<not> ensure p2 2 then Inr (NEED_MORE, p2)
                    else if \<not> (buf_at (buffer p2) (offset p2) = Some (CHR 0x0D)
                                \<and> buf_at (buffer p2) (offset p2 + 1) = Some (CHR 0x0A))
                    then Inl Verbatim_not_terminated
                    else
                      let p3 = p2\<lparr>offset := offset p2 + 2\<rparr>;
                          text = utf8_replace payload
                      in (case indexOf_char text (CHR '':'') of
                            Some colon \<Rightarrow>
                              if colon > 0
                              then produce (Verbatim_string (take colon text)
                                              (drop (colon + 1) text)) p3
                              else produce (Verbatim_string ''txt'' text) p3
                          | None \<Rightarrow> produce (Verbatim_string ''txt'' text) p3))"

definition parseNull :: "Resp3Parser \<Rightarrow> step" where
  "parseNull p =
     (if buf_at (buffer p) (offset p) \<noteq> Some (CHR ''_'') then Inr (NEED_MORE, p)
      else case readLine p of
             None \<Rightarrow> Inr (NEED_MORE, p)
           | Some (line, p') \<Rightarrow> if line \<noteq> [] then Inl Invalid_null_marker else produce Null p')"

definition parseBoolean :: "Resp3Parser \<Rightarrow> step" where
  "parseBoolean p =
     (if buf_at (buffer p) (offset p) \<noteq> Some (CHR ''#'') then Inr (NEED_MORE, p)
      else case readLine p of
             None \<Rightarrow> Inr (NEED_MORE, p)
           | Some (line, p') \<Rightarrow>
               if line \<noteq> ''t'' \<and> line \<noteq> ''f'' then Inl (Invalid_boolean line)
               else produce (Boolean (line = ''t'')) p')"

definition parseDouble :: "Resp3Parser \<Rightarrow> step" where
  "parseDouble p =
     (if buf_at (buffer p) (offset p) \<noteq> Some (CHR '','') then Inr (NEED_MORE, p)
      else case readLine p of
             None \<Rightarrow> Inr (NEED_MORE, p)
           | Some (line, p') \<Rightarrow>
               let lower = toLowerCase line;
                   v = (if lower = ''inf'' then PosInf
                        else if lower = ''-inf'' then NegInf
                        else if lower = ''nan'' then NaN
                        else parseFloat line)
               in if v = NaN \<and> lower \<noteq> ''nan'' then Inl (Invalid_double line)
                  else produce (Double v) p')"

definition parseBigNumber :: "Resp3Parser \<Rightarrow> step" where
  "parseBigNumber p =
     (if buf_at (buffer p) (offset p) \<noteq> Some (CHR ''('') then Inr (NEED_MORE, p)
      else case readLine p of
             None \<Rightarrow> Inr (NEED_MORE, p)
           | Some (line, p') \<Rightarrow>
               (case BigInt line of
                  Some v \<Rightarrow> produce (Big_number (Inl v)) p'
                | None \<Rightarrow> produce (Big_number (Inr line)) p'))"

subsection \<open>Aggregates\<close>

definition aggregateNull :: "AggregateKind \<Rightarrow> resp3" where
  "aggregateNull k =
     (case k of
        array_k \<Rightarrow> plain (Array None)
      | map_k \<Rightarrow> plain (Mapv None)
      | set_k \<Rightarrow> plain (Setv None)
      | push_k \<Rightarrow> plain (Push [])
      | attributes_k \<Rightarrow> plain Null)"

text \<open>The loop \<^verbatim>\<open>for (i = 0; i < items.length; i += 2) m.set(items[i], items[i + 1])\<close>.\<close>

fun entries :: "resp3 list \<Rightarrow> (resp3 \<times> resp3 option) list" where
  "entries (k # v # r) = (k, Some v) # entries r"
| "entries [k] = [(k, None)]"
| "entries [] = []"

text \<open>\<^verbatim>\<open>finalizeFrameInstant\<close>: an attributes frame stores its map as the pending
  attributes and returns a null node as placeholder.\<close>

definition finalizeFrameInstant :: "Frame \<Rightarrow> Resp3Parser \<Rightarrow> resp3 \<times> Resp3Parser" where
  "finalizeFrameInstant frame p =
     (case kind frame of
        array_k \<Rightarrow> (plain (Array (Some (items frame))), p)
      | set_k \<Rightarrow> (plain (Setv (Some (items frame))), p)
      | map_k \<Rightarrow> (plain (Mapv (Some (entries (items frame)))), p)
      | attributes_k \<Rightarrow> (plain Null, p\<lparr>pendingAttributes := Some (entries (items frame))\<rparr>)
      | push_k \<Rightarrow> (plain (Push (items frame)), p))"

definition expectedPrefix :: "AggregateKind \<Rightarrow> char" where
  "expectedPrefix k =
     (case k of array_k \<Rightarrow> CHR ''*'' | map_k \<Rightarrow> CHR ''%'' | set_k \<Rightarrow> CHR ''~''
      | push_k \<Rightarrow> CHR ''>'' | attributes_k \<Rightarrow> CHR ''|'')"

text \<open>\<^verbatim>\<open>top.items.push(child); top.remaining -= 1\<close> on the frame on top of the stack.\<close>

definition add_item :: "resp3 \<Rightarrow> Frame \<Rightarrow> Frame" where
  "add_item child f = f\<lparr>items := items f @ [child], remaining := remaining f - 1\<rparr>"

text \<open>
  \<^verbatim>\<open>parseOne\<close>, \<^verbatim>\<open>parseAggregate\<close> and \<^verbatim>\<open>consumeNested\<close> call each other, and the
  loops need not end (a blob header with a negative length can move the offset back), so
  the three functions take fuel: one unit for each call of \<^verbatim>\<open>parseOne\<close> and each round of
  the loop in \<^verbatim>\<open>consumeNested\<close>. \<open>None\<close> says that the fuel ran out. The frame stack
  grows at its end: the top frame is \<open>last (frames p)\<close>.
\<close>

fun parseOne :: "nat \<Rightarrow> Resp3Parser \<Rightarrow> step option"
  and parseAggregate :: "nat \<Rightarrow> AggregateKind \<Rightarrow> Resp3Parser \<Rightarrow> step option"
  and consumeNested :: "nat \<Rightarrow> Resp3Parser \<Rightarrow> step option"
where
  "parseOne 0 p = None"
| "parseOne (Suc n) p =
     (if offset p \<ge> int (length (buffer p)) then Some (Inr (Undefined, p))
      else case buf_at (buffer p) (offset p) of
             None \<Rightarrow> Some (Inr (NEED_MORE, p))
           | Some prefix \<Rightarrow>
               if prefix = CHR ''+'' then Some (parseSimpleString p)
               else if prefix = CHR ''-'' then Some (parseError p)
               else if prefix = CHR '':'' then Some (parseInteger p)
               else if prefix = CHR ''$'' then Some (parseBlobStringLike False p)
               else if prefix = CHR ''!'' then Some (parseBlobStringLike True p)
               else if prefix = CHR ''='' then Some (parseVerbatimString p)
               else if prefix = CHR ''*'' then parseAggregate n array_k p
               else if prefix = CHR ''%'' then parseAggregate n map_k p
               else if prefix = CHR ''~'' then parseAggregate n set_k p
               else if prefix = CHR ''>'' then parseAggregate n push_k p
               else if prefix = CHR ''|'' then parseAggregate n attributes_k p
               else if prefix = CHR ''_'' then Some (parseNull p)
               else if prefix = CHR ''#'' then Some (parseBoolean p)
               else if prefix = CHR '','' then Some (parseDouble p)
               else if prefix = CHR ''('' then Some (parseBigNumber p)
               else Some (Inl (Unknown_prefix prefix)))"
| "parseAggregate n k p =
     (if buf_at (buffer p) (offset p) \<noteq> Some (expectedPrefix k) then Some (Inr (NEED_MORE, p))
      else case readLenAfterPrefix p of
             Inl e \<Rightarrow> Some (Inl e)
           | Inr None \<Rightarrow> Some (Inr (NEED_MORE, p))
           | Inr (Some (len, p1)) \<Rightarrow>
               if len = - 1 then
                 (case attachAttrs (aggregateNull k) p1 of (node, p2) \<Rightarrow> Some (Inr (Node node, p2)))
               else
                 let frame = \<lparr>kind = k,
                              remaining = (if k = map_k \<or> k = attributes_k then len * 2 else len),
                              items = [],
                              attrs = pendingAttributes p1\<rparr>;
                     p2 = p1\<lparr>pendingAttributes := None\<rparr>
                 in if remaining frame = 0 then
                      (case finalizeFrameInstant frame p2 of
                         (node, p3) \<Rightarrow>
                           (case attachAttrs node p3 of
                              (node', p4) \<Rightarrow> Some (Inr (Node node', p4))))
                    else consumeNested n (p2\<lparr>frames := frames p2 @ [frame]\<rparr>))"
| "consumeNested 0 p = None"
| "consumeNested (Suc n) p =
     (if frames p = [] then Some (Inr (Undefined, p))
      else
        case parseOne n p of
          None \<Rightarrow> None
        | Some (Inl e) \<Rightarrow> Some (Inl e)
        | Some (Inr (NEED_MORE, p1)) \<Rightarrow> Some (Inr (NEED_MORE, p1\<lparr>offset := offset p\<rparr>))
        | Some (Inr (Undefined, p1)) \<Rightarrow> Some (Inr (NEED_MORE, p1\<lparr>offset := offset p\<rparr>))
        | Some (Inr (Node child, p1)) \<Rightarrow>
            if frames p1 = [] then Some (Inl TypeError_undefined_frame)
            else
              let top = add_item child (last (frames p1));
                  p2 = p1\<lparr>frames := butlast (frames p1) @ [top]\<rparr>
              in if remaining top > 0 then consumeNested n p2
                 else
                   case finalizeFrameInstant top p2 of
                     (completed, p3) \<Rightarrow>
                       let p4 = p3\<lparr>frames := butlast (frames p3)\<rparr>;
                           withAttrs = attachExplicitAttrs completed (attrs top)
                       in if frames p4 = [] then Some (Inr (Node withAttrs, p4))
                          else
                            consumeNested n
                              (p4\<lparr>frames := butlast (frames p4)
                                             @ [add_item withAttrs (last (frames p4))]\<rparr>))"

subsection \<open>Feeding chunks\<close>

text \<open>\<^verbatim>\<open>handleValue\<close>: what reaches the sinks for a node.\<close>

definition handleValue :: "ParserOptions \<Rightarrow> Resp3Parser \<Rightarrow> resp3 \<Rightarrow> emitted list" where
  "handleValue opts p node =
     (if body node = Null \<and> attributes node = None \<and> frames p \<noteq> [] then []
      else if (case body node of Push _ \<Rightarrow> True | _ \<Rightarrow> False) \<and> onPush opts then [Pushed node]
      else if onReply opts then [Reply node]
      else [])"

definition reportError :: "ParserOptions \<Rightarrow> decode_error \<Rightarrow> emitted list" where
  "reportError opts e = (if onError opts then [Failed e] else [])"

definition reset :: "Resp3Parser \<Rightarrow> Resp3Parser" where
  "reset p = p\<lparr>buffer := [], offset := 0, frames := [], pendingAttributes := None\<rparr>"

text \<open>The loop of \<^verbatim>\<open>feed\<close> with its \<^verbatim>\<open>catch\<close>; \<open>out\<close> is what the sinks received so far.\<close>

fun feed_loop ::
  "nat \<Rightarrow> ParserOptions \<Rightarrow> Resp3Parser \<Rightarrow> emitted list \<Rightarrow> (Resp3Parser \<times> emitted list) option"
where
  "feed_loop 0 opts p out = None"
| "feed_loop (Suc n) opts p out =
     (case parseOne n p of
        None \<Rightarrow> None
      | Some (Inl e) \<Rightarrow> Some (reset p, out @ reportError opts e)
      | Some (Inr (NEED_MORE, p1)) \<Rightarrow> Some (p1\<lparr>offset := offset p\<rparr>, out)
      | Some (Inr (Undefined, p1)) \<Rightarrow> Some (p1, out)
      | Some (Inr (Node node, p1)) \<Rightarrow> feed_loop n opts p1 (out @ handleValue opts p1 node))"

definition feed ::
  "nat \<Rightarrow> ParserOptions \<Rightarrow> bytes \<Rightarrow> Resp3Parser \<Rightarrow> (Resp3Parser \<times> emitted list) option"
where
  "feed fuel opts chunk p =
     (if chunk = [] then Some (p, [])
      else
        let p1 = (if offset p = 0 \<and> buffer p = [] then p\<lparr>buffer := chunk\<rparr>
                  else
                    let p0 = (if offset p > 0
                              then p\<lparr>buffer := subarray (buffer p) (offset p)
                                                  (int (length (buffer p))),
                                     offset := 0\<rparr>
                              else p)
                    in p0\<lparr>buffer := buffer p0 @ chunk\<rparr>)
        in feed_loop fuel opts p1 [])"

text \<open>Feeding chunks one after the other to a parser, collecting what the sinks receive.\<close>

fun feed_chunks ::
  "nat \<Rightarrow> ParserOptions \<Rightarrow> bytes list \<Rightarrow> Resp3Parser \<Rightarrow> (Resp3Parser \<times> emitted list) option"
where
  "feed_chunks fuel opts [] p = Some (p, [])"
| "feed_chunks fuel opts (c # cs) p =
     (case feed fuel opts c p of
        None \<Rightarrow> None
      | Some (p1, out1) \<Rightarrow>
          (case feed_chunks fuel opts cs p1 of
             None \<Rightarrow> None
           | Some (p2, out2) \<Rightarrow> Some (p2, out1 @ out2)))"

text \<open>What a new parser, with all three sinks wired, emits for a list of chunks.\<close>

definition all_sinks :: ParserOptions where
  "all_sinks = \<lparr>onReply = True, onPush = True, onError = True\<rparr>"

definition decode :: "nat \<Rightarrow> bytes list \<Rightarrow> emitted list option" where
  "decode fuel chunks = map_option snd (feed_chunks fuel all_sinks chunks new_parser)"

section \<open>The encoder\<close>

text \<open>
  \<^verbatim>\<open>Resp3Writer\<close> appends to a growable buffer and returns the part it wrote; the model
  returns the bytes each method appends. An entry value \<^verbatim>\<open>undefined\<close> is written as
  null (\<^verbatim>\<open>convertToResp3\<close>); keys and values that are nodes are written as they are.
\<close>

definition writeCRLF :: bytes where
  "writeCRLF = [CHR 0x0D, CHR 0x0A]"

definition writeLength :: "nat \<Rightarrow> bytes" where
  "writeLength n = string_of_int (int n) @ writeCRLF"

definition joinCode :: "string option \<Rightarrow> string \<Rightarrow> string" where
  "joinCode code message =
     (case code of
        Some c \<Rightarrow> if c \<noteq> [] then c @ '' '' @ message else message
      | None \<Rightarrow> message)"

definition writeDouble :: "js_number \<Rightarrow> bytes" where
  "writeDouble v =
     '','' @ (case v of
               Finite q \<Rightarrow> numberToString (Finite q)
             | NegZero \<Rightarrow> numberToString NegZero
             | NaN \<Rightarrow> ''nan''
             | PosInf \<Rightarrow> ''inf''
             | NegInf \<Rightarrow> ''-inf'') @ writeCRLF"

fun writeValue :: "resp3 \<Rightarrow> bytes" and writeBody :: "body \<Rightarrow> bytes" where
  "writeValue (Resp3 b a) =
     (case a of
        None \<Rightarrow> []
      | Some kv \<Rightarrow>
          if length kv > 0 then
            ''|'' @ writeLength (length kv)
            @ concat (map (\<lambda>(k, v). writeValue k
                                     @ (case v of None \<Rightarrow> ''_'' @ writeCRLF
                                        | Some v' \<Rightarrow> writeValue v')) kv)
          else [])
     @ writeBody b"
| "writeBody (Simple_string str) = ''+'' @ str @ writeCRLF"
| "writeBody (Error code message) = ''-'' @ joinCode code message @ writeCRLF"
| "writeBody (Integer v) = '':'' @ string_of_int v @ writeCRLF"
| "writeBody (Double v) = writeDouble v"
| "writeBody (Big_number v) =
     ''('' @ (case v of Inl i \<Rightarrow> string_of_int i | Inr str \<Rightarrow> str) @ writeCRLF"
| "writeBody (Boolean v) = ''#'' @ (if v then ''t'' else ''f'') @ writeCRLF"
| "writeBody Null = ''_'' @ writeCRLF"
| "writeBody (Blob_string None) = ''$'' @ ''-1'' @ writeCRLF"
| "writeBody (Blob_string (Some v)) = ''$'' @ writeLength (length v) @ v @ writeCRLF"
| "writeBody (Blob_error code message) =
     ''!'' @ writeLength (length (joinCode code message)) @ joinCode code message @ writeCRLF"
| "writeBody (Verbatim_string format v) =
     ''='' @ writeLength (length (format @ '':'' @ v)) @ (format @ '':'' @ v) @ writeCRLF"
| "writeBody (Array None) = ''*'' @ ''-1'' @ writeCRLF"
| "writeBody (Array (Some vs)) = ''*'' @ writeLength (length vs) @ concat (map writeValue vs)"
| "writeBody (Mapv None) = ''%'' @ ''-1'' @ writeCRLF"
| "writeBody (Mapv (Some kv)) =
     ''%'' @ writeLength (length kv)
     @ concat (map (\<lambda>(k, v). writeValue k
                              @ (case v of None \<Rightarrow> ''_'' @ writeCRLF
                                 | Some v' \<Rightarrow> writeValue v')) kv)"
| "writeBody (Setv None) = ''~'' @ ''-1'' @ writeCRLF"
| "writeBody (Setv (Some vs)) = ''~'' @ writeLength (length vs) @ concat (map writeValue vs)"
| "writeBody (Push vs) = ''>'' @ writeLength (length vs) @ concat (map writeValue vs)"

definition encode :: "resp3 \<Rightarrow> bytes" where
  "encode v = writeValue v"

text \<open>Command arguments: text, a number, bytes, or another value that \<^verbatim>\<open>String(arg)\<close>
  turns into text (here a boolean).\<close>

datatype command_arg = Arg_string string | Arg_number js_number | Arg_buffer bytes
  | Arg_boolean bool

definition writeBulkString :: "bytes \<Rightarrow> bytes" where
  "writeBulkString v = ''$'' @ writeLength (length v) @ v @ writeCRLF"

definition writeArg :: "command_arg \<Rightarrow> bytes" where
  "writeArg a =
     (case a of
        Arg_string str \<Rightarrow> writeBulkString str
      | Arg_number x \<Rightarrow> writeBulkString (numberToString x)
      | Arg_buffer b \<Rightarrow> writeBulkString b
      | Arg_boolean b \<Rightarrow> writeBulkString (if b then ''true'' else ''false''))"

definition encodeCommand :: "string \<Rightarrow> command_arg list \<Rightarrow> bytes" where
  "encodeCommand command args =
     ''*'' @ writeLength (length args + 1) @ writeBulkString command @ concat (map writeArg args)"

section \<open>The connection manager\<close>

text \<open>
  \<^verbatim>\<open>ConnectionManager\<close> keeps the pending commands in a JavaScript \<^verbatim>\<open>Map\<close> from command
  id to \<^verbatim>\<open>PendingCommand\<close>, which iterates in insertion order: an association list. The
  id \<^verbatim>\<open>cmd_<counter>_<time>\<close> is modelled by its counter. A timer is armed while its
  command is in the map (\<^verbatim>\<open>resolve\<close>, \<^verbatim>\<open>reject\<close> and \<^verbatim>\<open>disconnect\<close> clear it), so its
  firing is an input of its own. The session receives what the decoder hands to its three
  callbacks. What a caller can observe is recorded: how each command's promise settled,
  the events emitted, the bytes handed to the transport, and how \<^verbatim>\<open>connect()\<close> ended.
  Event listeners are taken not to throw.
\<close>

datatype ClientState = disconnected | connecting | connected | disconnecting | error

text \<open>The value a command's promise resolves with (\<^verbatim>\<open>_transformResponse\<close>).\<close>

datatype response =
    R_string string
  | R_number js_number
  | R_boolean bool
  | R_null
  | R_array "resp3 list option"
  | R_map "(resp3 \<times> resp3 option) list option"
  | R_set "resp3 list option"
  | R_push "resp3 list"

text \<open>What the parser's \<^verbatim>\<open>onError\<close> sink can receive: a decode error, or the
  \<^verbatim>\<open>TypeError\<close> of a reply sink: of \<^verbatim>\<open>_handleReply\<close> that found no pending command, or
  of the handshake's sink when \<^verbatim>\<open>JSON.stringify\<close> met a bigint.\<close>

datatype thrown = Decode decode_error | TypeError_no_pending | TypeError_serialize_BigInt

datatype session_error =
    ConnectionRequiredError string ClientState
  | CommandTimeoutError string
  | TransformError string resp3 string
  | ParseError thrown
  | Unexpected_handshake_response resp3
  | Handshake_timeout

type_synonym command_id = nat

record PendingCommand =
  command :: string
  args :: "command_arg list"

datatype settlement = Resolved response | Rejected session_error

datatype event =
    Ev_error session_error
  | Ev_push resp3
  | Ev_command_start string
  | Ev_command_end string response
  | Ev_command_error string session_error
  | Ev_connect

text \<open>
  \<open>handshake_promise\<close> is the promise that \<^verbatim>\<open>_performHandshake\<close> returns,
  \<open>handshake_timer\<close> says that its timer is armed and \<open>handshake_hook\<close> that the reply
  sink it installs on the parser is in place. \<open>connect_result\<close> is \<open>None\<close> while
  \<^verbatim>\<open>connect()\<close> has not returned, \<open>Some None\<close> when it returned normally and
  \<open>Some (Some e)\<close> when it threw \<open>e\<close>.
\<close>

datatype promise = No_promise | Unsettled | Fulfilled | Broken session_error

record ConnectionManager =
  state :: ClientState
  isHandshakeComplete :: bool
  has_transport :: bool
  pendingCommands :: "(command_id \<times> PendingCommand) list"
  commandIdCounter :: nat
  handshake_hook :: bool
  handshake_timer :: bool
  handshake_promise :: promise
  written :: "bytes list"
  settled :: "(command_id \<times> settlement) list"
  emitted :: "event list"
  connect_result :: "session_error option option"

definition new_manager :: ConnectionManager where
  "new_manager =
     \<lparr>state = disconnected, isHandshakeComplete = False, has_transport = False,
      pendingCommands = [], commandIdCounter = 0, handshake_hook = False,
      handshake_timer = False, handshake_promise = No_promise, written = [], settled = [],
      emitted = [],
      connect_result = None\<rparr>"

definition isConnected :: "ConnectionManager \<Rightarrow> bool" where
  "isConnected s = (state s = connected \<and> isHandshakeComplete s)"

text \<open>\<^verbatim>\<open>Map.delete\<close>.\<close>

definition delete_pending :: "command_id \<Rightarrow> ConnectionManager \<Rightarrow> ConnectionManager" where
  "delete_pending i s = s\<lparr>pendingCommands := filter (\<lambda>e. fst e \<noteq> i) (pendingCommands s)\<rparr>"

text \<open>\<^verbatim>\<open>pending.resolve\<close> and \<^verbatim>\<open>pending.reject\<close> of the command \<open>i\<close>.\<close>

definition pending_resolve ::
  "command_id \<Rightarrow> PendingCommand \<Rightarrow> response \<Rightarrow> ConnectionManager \<Rightarrow> ConnectionManager" where
  "pending_resolve i pc v s =
     (let s1 = delete_pending i s
      in s1\<lparr>emitted := emitted s1 @ [Ev_command_end (command pc) v],
             settled := settled s1 @ [(i, Resolved v)]\<rparr>)"

definition pending_reject ::
  "command_id \<Rightarrow> PendingCommand \<Rightarrow> session_error \<Rightarrow> ConnectionManager \<Rightarrow> ConnectionManager" where
  "pending_reject i pc e s =
     (let s1 = delete_pending i s
      in s1\<lparr>emitted := emitted s1 @ [Ev_command_error (command pc) e],
             settled := settled s1 @ [(i, Rejected e)]\<rparr>)"

text \<open>\<^verbatim>\<open>sendCommand\<close>: throws unless connected; otherwise the command gets the next id, is
  appended to the map, and its encoding is handed to the transport.\<close>

definition sendCommand ::
  "string \<Rightarrow> command_arg list \<Rightarrow> ConnectionManager \<Rightarrow> session_error + (command_id \<times> ConnectionManager)"
where
  "sendCommand cmd as s =
     (if \<not> isConnected s then Inl (ConnectionRequiredError cmd (state s))
      else if \<not> has_transport s then Inl (ConnectionRequiredError cmd (state s))
      else
        let i = commandIdCounter s + 1
        in Inr (i, s\<lparr>commandIdCounter := i,
                      pendingCommands := pendingCommands s @ [(i, \<lparr>command = cmd, args = as\<rparr>)],
                      written := written s @ [encodeCommand cmd as],
                      emitted := emitted s @ [Ev_command_start cmd]\<rparr>))"

text \<open>The timer of command \<open>i\<close> fires: the entry is deleted and the promise rejected.\<close>

definition command_timeout :: "command_id \<Rightarrow> ConnectionManager \<Rightarrow> ConnectionManager" where
  "command_timeout i s =
     (case map_of (pendingCommands s) i of
        None \<Rightarrow> s
      | Some pc \<Rightarrow>
          let s1 = delete_pending i s
          in s1\<lparr>settled := settled s1 @ [(i, Rejected (CommandTimeoutError (command pc)))]\<rparr>)"

definition transformResponse :: "resp3 \<Rightarrow> string \<Rightarrow> session_error + response" where
  "transformResponse r cmd =
     (case body r of
        Simple_string v \<Rightarrow> Inr (R_string v)
      | Error code message \<Rightarrow>
          Inl (TransformError cmd r
                 ((case code of Some c \<Rightarrow> if c \<noteq> [] then c else ''ERROR'' | None \<Rightarrow> ''ERROR'')
                  @ '': '' @ message))
      | Integer v \<Rightarrow> Inr (R_number (Number v))
      | Double v \<Rightarrow> Inr (R_number v)
      | Big_number v \<Rightarrow> (case v of Inl i \<Rightarrow> Inr (R_number (Number i)) | Inr str \<Rightarrow> Inr (R_string str))
      | Boolean v \<Rightarrow> Inr (R_boolean v)
      | Null \<Rightarrow> Inr R_null
      | Blob_string v \<Rightarrow>
          (case v of
             None \<Rightarrow> Inr R_null
           | Some b \<Rightarrow> if b = [] then Inr R_null else Inr (R_string b))
      | Blob_error code message \<Rightarrow>
          Inl (TransformError cmd r
                 ((case code of Some c \<Rightarrow> if c \<noteq> [] then c else ''ERROR'' | None \<Rightarrow> ''ERROR'')
                  @ '': '' @ message))
      | Verbatim_string format v \<Rightarrow> Inr (R_string v)
      | Array v \<Rightarrow> Inr (R_array v)
      | Mapv v \<Rightarrow> Inr (R_map v)
      | Setv v \<Rightarrow> Inr (R_set v)
      | Push v \<Rightarrow> Inr (R_push v))"

text \<open>\<^verbatim>\<open>_handleReply\<close>: the first entry of the map is settled with the transformed
  reply. On an empty map the destructuring of \<^verbatim>\<open>undefined\<close> throws.\<close>

definition handleReply :: "resp3 \<Rightarrow> ConnectionManager \<Rightarrow> thrown + ConnectionManager" where
  "handleReply r s =
     (case pendingCommands s of
        [] \<Rightarrow> Inl TypeError_no_pending
      | (i, pc) # _ \<Rightarrow>
          (case transformResponse r (command pc) of
             Inr v \<Rightarrow> Inr (pending_resolve i pc v s)
           | Inl e \<Rightarrow> Inr (pending_reject i pc e s)))"

definition handlePush :: "resp3 \<Rightarrow> ConnectionManager \<Rightarrow> ConnectionManager" where
  "handlePush r s = s\<lparr>emitted := emitted s @ [Ev_push r]\<rparr>"

definition handleParseError :: "thrown \<Rightarrow> ConnectionManager \<Rightarrow> ConnectionManager" where
  "handleParseError e s = s\<lparr>emitted := emitted s @ [Ev_error (ParseError e)]\<rparr>"

subsection \<open>Connecting and the handshake\<close>

text \<open>\<^verbatim>\<open>connect()\<close> up to its first \<^verbatim>\<open>await\<close>: nothing happens when already connected or
  connecting; otherwise transport, parser and writer are created.\<close>

definition connect_begin :: "ConnectionManager \<Rightarrow> ConnectionManager" where
  "connect_begin s =
     (if state s = connected \<or> state s = connecting then s
      else s\<lparr>state := connecting, has_transport := True, handshake_promise := No_promise,
             connect_result := None\<rparr>)"

text \<open>The transport is up: the state becomes \<^verbatim>\<open>connected\<close> and \<^verbatim>\<open>_performHandshake\<close>
  writes \<^verbatim>\<open>HELLO 3\<close>, arms its timer and replaces the parser's reply sink. Transport and
  writer were created by \<^verbatim>\<open>connect()\<close> just before, so its first test does not throw.\<close>

definition transport_up :: "ConnectionManager \<Rightarrow> ConnectionManager" where
  "transport_up s =
     s\<lparr>state := connected,
       written := written s @ [encodeCommand ''HELLO'' [Arg_string ''3'']],
       handshake_hook := True,
       handshake_timer := True,
       handshake_promise := Unsettled\<rparr>"

text \<open>\<^verbatim>\<open>resolve()\<close> and \<^verbatim>\<open>reject(e)\<close> of the handshake promise: a settled promise stays as
  it is.\<close>

definition resolve_handshake :: "ConnectionManager \<Rightarrow> ConnectionManager" where
  "resolve_handshake s =
     (if handshake_promise s = Unsettled then s\<lparr>handshake_promise := Fulfilled\<rparr> else s)"

definition reject_handshake :: "session_error \<Rightarrow> ConnectionManager \<Rightarrow> ConnectionManager" where
  "reject_handshake e s =
     (if handshake_promise s = Unsettled then s\<lparr>handshake_promise := Broken e\<rparr> else s)"

text \<open>
  \<^verbatim>\<open>JSON.stringify(resp3)\<close> throws a \<^verbatim>\<open>TypeError\<close> when it reaches a bigint. It walks the
  own properties of the node and the elements of arrays; a \<^verbatim>\<open>Map\<close> or a \<^verbatim>\<open>Set\<close> (the
  attributes, the value of a map or set node) has no own properties and is written as
  \<^verbatim>\<open>{}\<close> without looking inside, and a \<^verbatim>\<open>Buffer\<close> is written through its \<^verbatim>\<open>toJSON\<close>.
\<close>

fun stringify_throws :: "resp3 \<Rightarrow> bool" and body_stringify_throws :: "body \<Rightarrow> bool" where
  "stringify_throws (Resp3 b a) = body_stringify_throws b"
| "body_stringify_throws (Integer v) = True"
| "body_stringify_throws (Big_number v) = (case v of Inl i \<Rightarrow> True | Inr str \<Rightarrow> False)"
| "body_stringify_throws (Array (Some vs)) = list_ex stringify_throws vs"
| "body_stringify_throws (Push vs) = list_ex stringify_throws vs"
| "body_stringify_throws b = False"

text \<open>
  The reply sink installed by the handshake: it clears the timer, restores the original
  sink, and resolves the promise for the simple string \<^verbatim>\<open>OK\<close>; for any other reply it
  builds the error message with \<^verbatim>\<open>JSON.stringify\<close> and rejects the promise with it. When
  \<^verbatim>\<open>JSON.stringify\<close> throws, the sink ends there (\<open>Some\<close> of what it threw) and the promise
  is left as it was.
\<close>

definition handshake_reply :: "resp3 \<Rightarrow> ConnectionManager \<Rightarrow> thrown option \<times> ConnectionManager" where
  "handshake_reply r s =
     (let s1 = s\<lparr>handshake_timer := False, handshake_hook := False\<rparr>
      in if body r = Simple_string ''OK'' then (None, resolve_handshake s1)
         else if stringify_throws r then (Some TypeError_serialize_BigInt, s1)
         else (None, reject_handshake (Unexpected_handshake_response r) s1))"

text \<open>The handshake timer fires.\<close>

definition handshake_timeout :: "ConnectionManager \<Rightarrow> ConnectionManager" where
  "handshake_timeout s =
     (if handshake_timer s then reject_handshake Handshake_timeout (s\<lparr>handshake_timer := False\<rparr>)
      else s)"

text \<open>
  \<^verbatim>\<open>connect()\<close> after \<^verbatim>\<open>await this._performHandshake()\<close>. The continuation runs as a
  microtask of its own once the promise is settled, after the sink that settled it has
  returned, and runs once; while the promise is not settled \<^verbatim>\<open>connect()\<close> stays
  suspended.
\<close>

definition connect_resume :: "ConnectionManager \<Rightarrow> ConnectionManager" where
  "connect_resume s =
     (if connect_result s \<noteq> None then s
      else case handshake_promise s of
             Fulfilled \<Rightarrow>
               s\<lparr>isHandshakeComplete := True, emitted := emitted s @ [Ev_connect],
                 connect_result := Some None\<rparr>
           | Broken e \<Rightarrow>
               s\<lparr>state := error, emitted := emitted s @ [Ev_error e],
                 connect_result := Some (Some e)\<rparr>
           | _ \<Rightarrow> s)"

text \<open>What the decoder's sinks do with a value: the reply sink is the handshake's while
  that is installed, \<^verbatim>\<open>_handleReply\<close> otherwise, and an exception of the reply sink
  comes back through the decoder's \<^verbatim>\<open>catch\<close> as a parse error.\<close>

definition onReply_sink :: "resp3 \<Rightarrow> ConnectionManager \<Rightarrow> ConnectionManager" where
  "onReply_sink r s =
     (if handshake_hook s then
        (case handshake_reply r s of
           (Some e, s') \<Rightarrow> handleParseError e s'
         | (None, s') \<Rightarrow> s')
      else case handleReply r s of
             Inl e \<Rightarrow> handleParseError e s
           | Inr s' \<Rightarrow> s')"

definition deliver :: "emitted \<Rightarrow> ConnectionManager \<Rightarrow> ConnectionManager" where
  "deliver x s =
     (case x of
        Reply r \<Rightarrow> onReply_sink r s
      | Pushed r \<Rightarrow> handlePush r s
      | Failed e \<Rightarrow> handleParseError (Decode e) s)"

section \<open>Client options\<close>





section \<open>Runs of a session\<close>

text \<open>
  What happens to a session, one input at a time: a caller submits a command, the decoder
  hands a value or an error to its sink, or the timer of a command fires. A submission
  that throws leaves the session as it was.
\<close>

datatype input = Submit string "command_arg list" | Decoded emitted | Timer_fires command_id

fun run :: "input list \<Rightarrow> ConnectionManager \<Rightarrow> ConnectionManager" where
  "run [] s = s"
| "run (Submit cmd as # xs) s =
     (case sendCommand cmd as s of Inl e \<Rightarrow> run xs s | Inr (i, s') \<Rightarrow> run xs s')"
| "run (Decoded x # xs) s = run xs (deliver x s)"
| "run (Timer_fires i # xs) s = run xs (command_timeout i s)"

fun is_timer :: "input \<Rightarrow> bool" where
  "is_timer (Timer_fires i) = True"
| "is_timer x = False"

fun is_submit :: "input \<Rightarrow> bool" where
  "is_submit (Submit cmd as) = True"
| "is_submit x = False"

text \<open>How a reply settles the promise of a pending command.\<close>

definition settle_with :: "resp3 \<Rightarrow> PendingCommand \<Rightarrow> settlement" where
  "settle_with r pc =
     (case transformResponse r (command pc) of Inr v \<Rightarrow> Resolved v | Inl e \<Rightarrow> Rejected e)"

text \<open>A session after \<^verbatim>\<open>connect()\<close> with the server answering \<^verbatim>\<open>+OK\<close> to the handshake.\<close>

definition ready :: ConnectionManager where
  "ready =
     connect_resume
       (onReply_sink (plain (Simple_string ''OK'')) (transport_up (connect_begin new_manager)))"

text \<open>The ids in the map are distinct and were all handed out already.\<close>

definition ids_in_order :: "ConnectionManager \<Rightarrow> bool" where
  "ids_in_order s =
     (distinct (map fst (pendingCommands s))
      \<and> list_all (\<lambda>e. fst e \<le> commandIdCounter s) (pendingCommands s))"

section \<open>Properties of the decoder and the encoder\<close>

subsection \<open>Fuel\<close>

text \<open>
  A result obtained with some amount of fuel is the result for every larger amount: the
  fuel only cuts runs short, it never changes what a run returns.
\<close>

lemma agg_mono:
  assumes c: "\<And>p r. consumeNested n p = Some r \<Longrightarrow> consumeNested m p = Some r"
    and a: "parseAggregate n kd p = Some r"
  shows "parseAggregate m kd p = Some r"
proof (cases "buf_at (buffer p) (offset p) \<noteq> Some (expectedPrefix kd)")
  case True
  then show ?thesis using a by simp
next
  case pre: False
  show ?thesis
  proof (cases "readLenAfterPrefix p")
    case (Inl e)
    then show ?thesis using a pre by simp
  next
    case (Inr x)
    show ?thesis
    proof (cases x)
      case None
      then show ?thesis using a pre Inr by simp
    next
      case (Some lp)
      obtain len p1 where lp: "lp = (len, p1)" by (cases lp)
      show ?thesis
      proof (cases "len = - 1")
        case True
        then show ?thesis using a pre Inr Some lp by (simp split: prod.splits)
      next
        case ln: False
        show ?thesis
        proof (cases "(if kd = map_k \<or> kd = attributes_k then len * 2 else len) = 0")
          case True
          then show ?thesis using a pre Inr Some lp ln
            by (simp add: Let_def split: prod.splits)
        next
          case False
          then show ?thesis using a pre Inr Some lp ln c
            by (simp add: Let_def)
        qed
      qed
    qed
  qed
qed


lemma one_mono:
  assumes g: "\<And>kd p r. parseAggregate n kd p = Some r \<Longrightarrow> parseAggregate m kd p = Some r"
    and a: "parseOne (Suc n) p = Some r"
  shows "parseOne (Suc m) p = Some r"
proof (cases "offset p \<ge> int (length (buffer p))")
  case True
  then show ?thesis using a by simp
next
  case off: False
  show ?thesis
  proof (cases "buf_at (buffer p) (offset p)")
    case None
    then show ?thesis using a off by simp
  next
    case (Some prefix)
    then show ?thesis using a off g by (simp del: parseAggregate.simps split: if_splits)
  qed
qed

lemma nested_mono:
  assumes o: "\<And>p r. parseOne n p = Some r \<Longrightarrow> parseOne m p = Some r"
    and c: "\<And>p r. consumeNested n p = Some r \<Longrightarrow> consumeNested m p = Some r"
    and a: "consumeNested (Suc n) p = Some r"
  shows "consumeNested (Suc m) p = Some r"
proof (cases "frames p = []")
  case True
  then show ?thesis using a by simp
next
  case fr: False
  show ?thesis
  proof (cases "parseOne n p")
    case None
    then show ?thesis using a fr by simp
  next
    case (Some x)
    note pm = o[OF Some]
    show ?thesis
    proof (cases x)
      case (Inl e)
      then have "r = Inl e" using a fr Some by simp
      then show ?thesis using fr pm Inl by simp
    next
      case (Inr y)
      obtain res p1 where y: "y = (res, p1)" by (cases y)
      show ?thesis
      proof (cases res)
        case NEED_MORE
        then have "r = Inr (NEED_MORE, p1\<lparr>offset := offset p\<rparr>)"
          using a fr Some Inr y by simp
        then show ?thesis using fr pm Inr y NEED_MORE by simp
      next
        case Undefined
        then have "r = Inr (NEED_MORE, p1\<lparr>offset := offset p\<rparr>)"
          using a fr Some Inr y by simp
        then show ?thesis using fr pm Inr y Undefined by simp
      next
        case (Node child)
        show ?thesis
        proof (cases "frames p1 = []")
          case True
          then have "r = Inl TypeError_undefined_frame"
            using a fr Some Inr y Node by simp
          then show ?thesis using fr pm Inr y Node True by simp
        next
          case f1: False
          let ?top = "add_item child (last (frames p1))"
          let ?p2 = "p1\<lparr>frames := butlast (frames p1) @ [?top]\<rparr>"
          show ?thesis
          proof (cases "remaining ?top > 0")
            case True
            then have "consumeNested n ?p2 = Some r"
              using a fr Some Inr y Node f1 by (simp add: Let_def)
            from c[OF this] show ?thesis
              using True fr pm Inr y Node f1 by (simp add: Let_def)
          next
            case rem: False
            obtain completed p3 where fin: "finalizeFrameInstant ?top ?p2 = (completed, p3)"
              by (cases "finalizeFrameInstant ?top ?p2")
            let ?p4 = "p3\<lparr>frames := butlast (frames p3)\<rparr>"
            show ?thesis
            proof (cases "frames ?p4 = []")
              case True
              then have "r = Inr (Node (attachExplicitAttrs completed (attrs ?top)), ?p4)"
                using a fr Some Inr y Node f1 rem fin by (simp add: Let_def)
              then show ?thesis using fr pm Inr y Node f1 rem fin True
                by (simp add: Let_def)
            next
              case False
              let ?p5 = "?p4\<lparr>frames := butlast (frames ?p4)
                          @ [add_item (attachExplicitAttrs completed (attrs ?top)) (last (frames ?p4))]\<rparr>"
              have "consumeNested n ?p5 = Some r"
                using a fr Some Inr y Node f1 rem fin False by (simp add: Let_def)
              from c[OF this] show ?thesis
                using fr pm Inr y Node f1 rem fin False by (simp add: Let_def)
            qed
          qed
        qed
      qed
    qed
  qed
qed

lemma fuel_Suc:
  "(\<forall>p r. parseOne n p = Some r \<longrightarrow> parseOne (Suc n) p = Some r)
   \<and> (\<forall>p r. consumeNested n p = Some r \<longrightarrow> consumeNested (Suc n) p = Some r)"
proof (induction n)
  case 0
  then show ?case by simp
next
  case (Suc n)
  have c: "\<And>p r. consumeNested (Suc n) p = Some r \<Longrightarrow> consumeNested (Suc (Suc n)) p = Some r"
    using Suc nested_mono[of n "Suc n"] by blast
  have g: "\<And>kd p r. parseAggregate n kd p = Some r \<Longrightarrow> parseAggregate (Suc n) kd p = Some r"
    using Suc agg_mono[of n "Suc n"] by blast
  have o: "\<And>p r. parseOne (Suc n) p = Some r \<Longrightarrow> parseOne (Suc (Suc n)) p = Some r"
    using g one_mono[of n "Suc n"] by blast
  from c o show ?case by blast
qed

lemma parseOne_fuel: "parseOne n p = Some r \<Longrightarrow> n \<le> m \<Longrightarrow> parseOne m p = Some r"
proof (induction m)
  case 0
  then show ?case by simp
next
  case (Suc m)
  show ?case
  proof (cases "n = Suc m")
    case True
    then show ?thesis using Suc.prems by simp
  next
    case False
    then have "parseOne m p = Some r" using Suc by simp
    then show ?thesis using fuel_Suc[of m] by blast
  qed
qed

lemma feed_loop_fuel:
  "feed_loop n opts p out = Some r \<Longrightarrow> n \<le> m \<Longrightarrow> feed_loop m opts p out = Some r"
proof (induction n opts p out arbitrary: m rule: feed_loop.induct)
  case (1 opts p out)
  then show ?case by simp
next
  case (2 n opts p out)
  from "2.prems"(2) obtain m' where m: "m = Suc m'" "n \<le> m'" by (cases m) auto
  show ?case
  proof (cases "parseOne n p")
    case None
    then show ?thesis using "2.prems" by simp
  next
    case (Some x)
    note pm = parseOne_fuel[OF Some m(2)]
    show ?thesis
    proof (cases x)
      case (Inl e)
      then have "r = (reset p, out @ reportError opts e)" using "2.prems" Some by simp
      then show ?thesis using Some pm m Inl by simp
    next
      case (Inr y)
      obtain res p1 where y: "y = (res, p1)" by (cases y)
      show ?thesis
      proof (cases res)
        case (Node node)
        have "feed_loop n opts p1 (out @ handleValue opts p1 node) = Some r"
          using "2.prems" Some Inr y Node by simp
        from "2.IH"[OF Some Inr y[symmetric] Node this m(2)]
        show ?thesis using Some pm Inr y Node m by simp
      next
        case NEED_MORE
        then have "r = (p1\<lparr>offset := offset p\<rparr>, out)" using "2.prems" Some Inr y by simp
        then show ?thesis using pm Inr y m NEED_MORE by simp
      next
        case Undefined
        then have "r = (p1, out)" using "2.prems" Some Inr y by simp
        then show ?thesis using pm Inr y m Undefined by simp
      qed
    qed
  qed
qed

lemma feed_fuel: "feed n opts c p = Some r \<Longrightarrow> n \<le> m \<Longrightarrow> feed m opts c p = Some r"
  unfolding feed_def by (auto simp: Let_def intro: feed_loop_fuel split: if_splits)

lemma feed_chunks_fuel:
  "feed_chunks n opts cs p = Some r \<Longrightarrow> n \<le> m \<Longrightarrow> feed_chunks m opts cs p = Some r"
proof (induction cs arbitrary: p r)
  case Nil
  then show ?case by simp
next
  case (Cons c cs)
  from Cons.prems(1) obtain p1 out1 where f: "feed n opts c p = Some (p1, out1)"
    by (auto split: option.splits)
  with Cons.prems(1) obtain p2 out2 where g: "feed_chunks n opts cs p1 = Some (p2, out2)"
    and r: "r = (p2, out1 @ out2)"
    by (auto split: option.splits)
  from feed_fuel[OF f Cons.prems(2)] Cons.IH[OF g Cons.prems(2)] r
  show ?case by simp
qed

lemma decode_fuel: "decode n cs = Some out \<Longrightarrow> n \<le> m \<Longrightarrow> decode m cs = Some out"
  unfolding decode_def by (auto dest: feed_chunks_fuel)

text \<open>
  Why the loops may run forever: after \<^verbatim>\<open>+OK\r\n\<close>, the blob header \<^verbatim>\<open>$-7\r\n\<close> moves the
  offset back onto the CR LF of the first line, so \<^verbatim>\<open>parseBlobStringLike\<close> returns an empty
  blob and leaves the parser where it was, at the start of the same header.
\<close>

lemma negative_blob_length_makes_no_progress:
  "parseBlobStringLike False
     \<lparr>buffer = ''+OK'' @ crlf @ ''$-7'' @ crlf, offset = 5, frames = [], pendingAttributes = None\<rparr>
   = Inr (Node (plain (Blob_string (Some []))),
          \<lparr>buffer = ''+OK'' @ crlf @ ''$-7'' @ crlf, offset = 5, frames = [],
           pendingAttributes = None\<rparr>)"
  by code_simp

subsection \<open>Decoding and encoding\<close>

text \<open>
  C9. Null and empty boundary decodes: \<^verbatim>\<open>$0\r\n\r\n\<close> decodes to an empty blob string,
  which is not the null blob string that \<^verbatim>\<open>$-1\r\n\<close> decodes to; \<^verbatim>\<open>*-1\r\n\<close>,
  \<^verbatim>\<open>%-1\r\n\<close> and \<^verbatim>\<open>~-1\r\n\<close> decode to a null array, a null map and a null set;
  \<^verbatim>\<open>>-1\r\n\<close> decodes to a push with no elements, delivered to the push sink.
\<close>

theorem null_and_empty_boundary_decodes:
  "decode 10 [''$0'' @ crlf @ crlf] = Some [Reply (plain (Blob_string (Some [])))]
   \<and> decode 10 [''$-1'' @ crlf] = Some [Reply (plain (Blob_string None))]
   \<and> plain (Blob_string (Some [])) \<noteq> plain (Blob_string None)
   \<and> decode 10 [''*-1'' @ crlf] = Some [Reply (plain (Array None))]
   \<and> decode 10 [''%-1'' @ crlf] = Some [Reply (plain (Mapv None))]
   \<and> decode 10 [''~-1'' @ crlf] = Some [Reply (plain (Setv None))]
   \<and> decode 10 [''>-1'' @ crlf] = Some [Pushed (plain (Push []))]"
  by code_simp

text \<open>
  C2. Attributes as a sidecar. For the bytes \<^verbatim>\<open>|1\r\n+ttl\r\n:3600\r\n+OK\r\n\<close> the reply
  sink receives two values: first the placeholder null of the attributes frame, then the
  simple string \<^verbatim>\<open>OK\<close> carrying the attributes. When the attributes frame completes at top
  level the frame stack is already empty, so the test in \<^verbatim>\<open>handleValue\<close> that should drop
  the placeholder does not apply.
\<close>

theorem attributes_frame_emits_placeholder:
  "decode 20 [''|1'' @ crlf @ ''+ttl'' @ crlf @ '':3600'' @ crlf @ ''+OK'' @ crlf]
   = Some [Reply (plain Null),
           Reply (Resp3 (Simple_string ''OK'')
                    (Some [(plain (Simple_string ''ttl''), Some (plain (Integer 3600)))]))]"
  by code_simp

text \<open>
  C1. Chunk-boundary independence. The array \<^verbatim>\<open>*2\r\n+a\r\n+b\r\n\<close> fed in one chunk is
  emitted; fed as \<^verbatim>\<open>*2\r\n+a\r\n\<close> followed by \<^verbatim>\<open>+b\r\n\<close> nothing is emitted. On
  \<^verbatim>\<open>NEED_MORE\<close> inside the aggregate, \<^verbatim>\<open>feed\<close> moves the offset back to the array header
  while the frame stays on the stack, so the second chunk starts a second frame whose
  result becomes a child of the first.
\<close>

theorem chunked_array_is_not_emitted:
  "decode 20 [''*2'' @ crlf @ ''+a'' @ crlf @ ''+b'' @ crlf]
     = Some [Reply (plain (Array (Some [plain (Simple_string ''a''),
                                         plain (Simple_string ''b'')])))]
   \<and> decode 20 [''*2'' @ crlf @ ''+a'' @ crlf, ''+b'' @ crlf] = Some []"
  by code_simp

text \<open>
  C5. Encode/decode round trip. The simple string \<^verbatim>\<open>OK\<close> with the attributes
  \<open>ttl \<mapsto> 3600\<close> is a value the decoder produces (see C2); its encoding is the bytes of
  C2, and feeding them emits two values, the placeholder null and then the value.
\<close>

theorem attributed_value_round_trip_emits_two:
  "encode (Resp3 (Simple_string ''OK'')
             (Some [(plain (Simple_string ''ttl''), Some (plain (Integer 3600)))]))
     = ''|1'' @ crlf @ ''+ttl'' @ crlf @ '':3600'' @ crlf @ ''+OK'' @ crlf
   \<and> decode 20 [encode (Resp3 (Simple_string ''OK'')
                           (Some [(plain (Simple_string ''ttl''), Some (plain (Integer 3600)))]))]
     = Some [Reply (plain Null),
             Reply (Resp3 (Simple_string ''OK'')
                      (Some [(plain (Simple_string ''ttl''), Some (plain (Integer 3600)))]))]"
  by code_simp

section \<open>Properties of the session and the client\<close>










subsection \<open>Correlation of replies\<close>

lemma sendCommand_ready:
  "isConnected s \<Longrightarrow> has_transport s \<Longrightarrow>
   sendCommand cmd as s =
     Inr (commandIdCounter s + 1,
          s\<lparr>commandIdCounter := commandIdCounter s + 1,
            pendingCommands := pendingCommands s @ [(commandIdCounter s + 1, \<lparr>command = cmd, args = as\<rparr>)],
            written := written s @ [encodeCommand cmd as],
            emitted := emitted s @ [Ev_command_start cmd]\<rparr>)"
  by (simp add: sendCommand_def Let_def)

lemma filter_head_distinct:
  "distinct (map fst ((i, pc) # rest)) \<Longrightarrow> filter (\<lambda>e. fst e \<noteq> i) ((i, pc) # rest) = rest"
  by (auto simp: filter_id_conv)

lemma handleReply_head:
  assumes "pendingCommands s = (i, pc) # rest" "distinct (map fst (pendingCommands s))"
  shows "\<exists>s'. handleReply r s = Inr s' \<and> settled s' = settled s @ [(i, settle_with r pc)]
           \<and> pendingCommands s' = rest \<and> commandIdCounter s' = commandIdCounter s
           \<and> isConnected s' = isConnected s \<and> has_transport s' = has_transport s
           \<and> handshake_hook s' = handshake_hook s"
  using assms filter_head_distinct[of i pc rest]
  by (cases "transformResponse r (command pc)")
     (simp_all add: handleReply_def pending_resolve_def pending_reject_def delete_pending_def
        settle_with_def Let_def isConnected_def)

lemma deliver_ids:
  assumes "\<not> handshake_hook s" "ids_in_order s"
  shows "map fst (settled (deliver x s)) @ map fst (pendingCommands (deliver x s))
           = map fst (settled s) @ map fst (pendingCommands s)
         \<and> commandIdCounter (deliver x s) = commandIdCounter s
         \<and> isConnected (deliver x s) = isConnected s
         \<and> has_transport (deliver x s) = has_transport s
         \<and> \<not> handshake_hook (deliver x s)
         \<and> ids_in_order (deliver x s)"
proof (cases x)
  case (Reply r)
  show ?thesis
  proof (cases "pendingCommands s")
    case Nil
    then show ?thesis using assms Reply
      by (simp add: deliver_def onReply_sink_def handleReply_def handleParseError_def
          isConnected_def ids_in_order_def)
  next
    case (Cons e rest)
    obtain i pc where e: "e = (i, pc)" by (cases e)
    from assms(2) have d: "distinct (map fst (pendingCommands s))"
      by (simp add: ids_in_order_def)
    from handleReply_head[OF Cons[unfolded e] d, of r]
    obtain s' where s': "handleReply r s = Inr s'" "settled s' = settled s @ [(i, settle_with r pc)]"
      "pendingCommands s' = rest" "commandIdCounter s' = commandIdCounter s"
      "isConnected s' = isConnected s" "has_transport s' = has_transport s"
      "handshake_hook s' = handshake_hook s" by blast
    then show ?thesis using assms Reply Cons e
      by (simp add: deliver_def onReply_sink_def ids_in_order_def)
  qed
next
  case (Pushed r)
  then show ?thesis using assms
    by (simp add: deliver_def handlePush_def isConnected_def ids_in_order_def)
next
  case (Failed e)
  then show ?thesis using assms
    by (simp add: deliver_def handleParseError_def isConnected_def ids_in_order_def)
qed

lemma run_ids:
  assumes "isConnected s" "has_transport s" "\<not> handshake_hook s" "ids_in_order s"
    "list_all (\<lambda>x. \<not> is_timer x) xs"
  shows "map fst (settled (run xs s)) @ map fst (pendingCommands (run xs s))
           = map fst (settled s) @ map fst (pendingCommands s)
             @ [commandIdCounter s + 1 ..< commandIdCounter s + 1 + length (filter is_submit xs)]"
  using assms
proof (induction xs arbitrary: s)
  case Nil
  then show ?case by simp
next
  case (Cons x xs)
  show ?case
  proof (cases x)
    case (Submit cmd as)
    let ?i = "commandIdCounter s + 1"
    let ?s' = "s\<lparr>commandIdCounter := ?i,
            pendingCommands := pendingCommands s @ [(?i, \<lparr>command = cmd, args = as\<rparr>)],
            written := written s @ [encodeCommand cmd as],
            emitted := emitted s @ [Ev_command_start cmd]\<rparr>"
    have sc: "sendCommand cmd as s = Inr (?i, ?s')"
      using Cons.prems by (simp add: sendCommand_ready)
    have inv: "isConnected ?s'" "has_transport ?s'" "\<not> handshake_hook ?s'" "ids_in_order ?s'"
      using Cons.prems by (auto simp: isConnected_def ids_in_order_def list_all_iff)
    have rest: "list_all (\<lambda>x. \<not> is_timer x) xs" using Cons.prems by simp
    let ?n = "length (filter is_submit xs)"
    have ih: "map fst (settled (run xs ?s')) @ map fst (pendingCommands (run xs ?s'))
           = map fst (settled s) @ (map fst (pendingCommands s) @ [?i])
             @ [?i + 1 ..< ?i + 1 + ?n]"
      using Cons.IH[OF inv rest] by simp
    have len: "length (filter is_submit (x # xs)) = Suc ?n" using Submit by simp
    have u: "[?i ..< ?i + Suc ?n] = ?i # [?i + 1 ..< ?i + 1 + ?n]"
      using upt_conv_Cons[of "?i" "?i + Suc ?n"] by (simp del: upt_Suc)
    have r: "run (x # xs) s = run xs ?s'" using Submit sc by simp
    show ?thesis unfolding r len u using ih by (simp del: upt_Suc)
  next
    case (Decoded y)
    from deliver_ids[OF Cons.prems(3,4), of y] Cons.prems
    have inv: "isConnected (deliver y s)" "has_transport (deliver y s)"
      "\<not> handshake_hook (deliver y s)" "ids_in_order (deliver y s)"
      and eq: "map fst (settled (deliver y s)) @ map fst (pendingCommands (deliver y s))
           = map fst (settled s) @ map fst (pendingCommands s)"
        "commandIdCounter (deliver y s) = commandIdCounter s"
      by simp_all
    have rest: "list_all (\<lambda>x. \<not> is_timer x) xs" using Cons.prems by simp
    from Cons.IH[OF inv rest] eq Decoded show ?thesis
      by (simp del: append_assoc add: append_assoc[symmetric])
  next
    case (Timer_fires i)
    then show ?thesis using Cons.prems by simp
  qed
qed

text \<open>
  C6. FIFO resolution order without timeouts. On a connected session with nothing
  pending, after any sequence of submissions and of values delivered by the decoder, with
  no timer firing, the ids of the settled commands followed by the ids of those still
  pending are the ids handed out, in the order of submission: the promises settle in
  submission order. Each reply settles the oldest pending command, with the outcome of
  that reply, and removes it from the map, both in \<^verbatim>\<open>_handleReply\<close> and as the decoder
  delivers it; a push settles nothing.
\<close>

theorem fifo_resolution_order:
  assumes "isConnected s" "has_transport s" "\<not> handshake_hook s" "pendingCommands s = []"
    "list_all (\<lambda>x. \<not> is_timer x) xs"
  shows "map fst (settled (run xs s)) @ map fst (pendingCommands (run xs s))
           = map fst (settled s)
             @ [commandIdCounter s + 1 ..< commandIdCounter s + 1 + length (filter is_submit xs)]
         \<and> (\<forall>t i pc rest r.
               pendingCommands t = (i, pc) # rest \<and> distinct (map fst (pendingCommands t)) \<longrightarrow>
               (\<exists>t'. handleReply r t = Inr t' \<and> settled t' = settled t @ [(i, settle_with r pc)]
                      \<and> pendingCommands t' = rest))
         \<and> (\<forall>t i pc rest r.
               \<not> handshake_hook t \<and> pendingCommands t = (i, pc) # rest
               \<and> distinct (map fst (pendingCommands t)) \<longrightarrow>
               settled (deliver (Reply r) t) = settled t @ [(i, settle_with r pc)]
               \<and> pendingCommands (deliver (Reply r) t) = rest)
         \<and> (\<forall>t r. settled (deliver (Pushed r) t) = settled t
                  \<and> pendingCommands (deliver (Pushed r) t) = pendingCommands t)"
proof (intro conjI)
  have "ids_in_order s" using assms(4) by (simp add: ids_in_order_def)
  from run_ids[OF assms(1,2,3) this assms(5)] assms(4)
  show "map fst (settled (run xs s)) @ map fst (pendingCommands (run xs s))
           = map fst (settled s)
             @ [commandIdCounter s + 1 ..< commandIdCounter s + 1 + length (filter is_submit xs)]"
    by simp
next
  show "\<forall>t i pc rest r.
               pendingCommands t = (i, pc) # rest \<and> distinct (map fst (pendingCommands t)) \<longrightarrow>
               (\<exists>t'. handleReply r t = Inr t' \<and> settled t' = settled t @ [(i, settle_with r pc)]
                      \<and> pendingCommands t' = rest)"
    using handleReply_head by blast
next
  show "\<forall>t i pc rest r.
               \<not> handshake_hook t \<and> pendingCommands t = (i, pc) # rest
               \<and> distinct (map fst (pendingCommands t)) \<longrightarrow>
               settled (deliver (Reply r) t) = settled t @ [(i, settle_with r pc)]
               \<and> pendingCommands (deliver (Reply r) t) = rest"
  proof (intro allI impI)
    fix t :: ConnectionManager and i pc rest and r :: resp3
    assume a: "\<not> handshake_hook t \<and> pendingCommands t = (i, pc) # rest
               \<and> distinct (map fst (pendingCommands t))"
    then have p: "pendingCommands t = (i, pc) # rest"
      and d: "distinct (map fst (pendingCommands t))" by blast+
    from handleReply_head[OF p d, of r] obtain t' where
      "handleReply r t = Inr t'" "settled t' = settled t @ [(i, settle_with r pc)]"
      "pendingCommands t' = rest" by blast
    then show "settled (deliver (Reply r) t) = settled t @ [(i, settle_with r pc)]
               \<and> pendingCommands (deliver (Reply r) t) = rest"
      using a by (simp add: deliver_def onReply_sink_def)
  qed
next
  show "\<forall>t r. settled (deliver (Pushed r) t) = settled t
                  \<and> pendingCommands (deliver (Pushed r) t) = pendingCommands t"
    by (simp add: deliver_def handlePush_def)
qed

theorem fifo_resolution_order_witness:
  "isConnected ready \<and> has_transport ready \<and> \<not> handshake_hook ready \<and> pendingCommands ready = []
   \<and> settled (run [Submit ''PING'' [], Submit ''ECHO'' [Arg_string ''hi''],
                   Decoded (Pushed (plain (Push [plain (Simple_string ''chan''),
                                                 plain (Simple_string ''msg'')]))),
                   Decoded (Reply (plain (Simple_string ''PONG''))),
                   Decoded (Reply (plain (Blob_string (Some ''hi''))))] ready)
       = [(1, Resolved (R_string ''PONG'')), (2, Resolved (R_string ''hi''))]
   \<and> map fst (settled (run [Submit ''PING'' [], Submit ''ECHO'' [Arg_string ''hi''],
                   Decoded (Pushed (plain (Push [plain (Simple_string ''chan''),
                                                 plain (Simple_string ''msg'')]))),
                   Decoded (Reply (plain (Simple_string ''PONG''))),
                   Decoded (Reply (plain (Blob_string (Some ''hi''))))] ready))
      @ map fst (pendingCommands (run [Submit ''PING'' [], Submit ''ECHO'' [Arg_string ''hi''],
                   Decoded (Pushed (plain (Push [plain (Simple_string ''chan''),
                                                 plain (Simple_string ''msg'')]))),
                   Decoded (Reply (plain (Simple_string ''PONG''))),
                   Decoded (Reply (plain (Blob_string (Some ''hi''))))] ready))
       = [1, 2]"
proof -
  let ?xs = "[Submit ''PING'' [], Submit ''ECHO'' [Arg_string ''hi''],
                   Decoded (Pushed (plain (Push [plain (Simple_string ''chan''),
                                                 plain (Simple_string ''msg'')]))),
                   Decoded (Reply (plain (Simple_string ''PONG''))),
                   Decoded (Reply (plain (Blob_string (Some ''hi''))))]"
  have h: "isConnected ready" "has_transport ready" "\<not> handshake_hook ready"
    "pendingCommands ready = []" "list_all (\<lambda>x. \<not> is_timer x) ?xs"
    by code_simp+
  have e: "settled (run ?xs ready)
       = [(1, Resolved (R_string ''PONG'')), (2, Resolved (R_string ''hi''))]"
    by code_simp
  have c: "commandIdCounter ready = 0" "settled ready = []" by code_simp+
  from fifo_resolution_order[OF h, THEN conjunct1] c have
    "map fst (settled (run ?xs ready)) @ map fst (pendingCommands (run ?xs ready)) = [1, 2]"
    by (simp add: upt_conv_Cons)
  with h e show ?thesis by simp
qed

text \<open>
  C3, as stated: after the timeout of A the session keeps a tombstone, A's late reply is
  discarded and B is resolved with B's own reply. Two \<^verbatim>\<open>GET\<close> commands are submitted, the
  timer of the first fires, and then the reply to the first arrives: the second command's
  promise is resolved with it, and nothing is pending for the reply that follows.
\<close>

theorem late_reply_resolves_next_command:
  "settled (run [Submit ''GET'' [Arg_string ''a''], Submit ''GET'' [Arg_string ''b''],
                 Timer_fires 1,
                 Decoded (Reply (plain (Blob_string (Some ''value-of-a''))))] ready)
     = [(1, Rejected (CommandTimeoutError ''GET'')), (2, Resolved (R_string ''value-of-a''))]
   \<and> pendingCommands (run [Submit ''GET'' [Arg_string ''a''], Submit ''GET'' [Arg_string ''b''],
                 Timer_fires 1,
                 Decoded (Reply (plain (Blob_string (Some ''value-of-a''))))] ready) = []"
  by code_simp

text \<open>
  C3, amended. If commands A then B are pending and A's timer fires, A's entry is deleted
  from the map and A's promise is rejected with a command-timeout error; no tombstone is
  kept, so the next reply that arrives settles B.
\<close>

theorem timeout_deletes_entry:
  assumes "pendingCommands s = (a, pa) # (b, pb) # rest" "distinct (map fst (pendingCommands s))"
  shows "pendingCommands (command_timeout a s) = (b, pb) # rest
         \<and> settled (command_timeout a s) = settled s @ [(a, Rejected (CommandTimeoutError (command pa)))]
         \<and> (\<exists>t. handleReply r (command_timeout a s) = Inr t
                \<and> settled t = settled s @ [(a, Rejected (CommandTimeoutError (command pa))),
                                            (b, settle_with r pb)]
                \<and> pendingCommands t = rest)"
proof -
  let ?s = "command_timeout a s"
  have f: "filter (\<lambda>e. fst e \<noteq> a) (pendingCommands s) = (b, pb) # rest"
    using assms filter_head_distinct[of a pa "(b, pb) # rest"] by simp
  have p: "pendingCommands ?s = (b, pb) # rest"
    using assms(1) f by (simp add: command_timeout_def delete_pending_def Let_def)
  have st: "settled ?s = settled s @ [(a, Rejected (CommandTimeoutError (command pa)))]"
    using assms(1) by (simp add: command_timeout_def delete_pending_def Let_def)
  have d: "distinct (map fst (pendingCommands ?s))" using assms p by simp
  from handleReply_head[OF p d, of r] obtain t where
    "handleReply r ?s = Inr t" "settled t = settled ?s @ [(b, settle_with r pb)]"
    "pendingCommands t = rest" by blast
  then show ?thesis using p st by simp
qed

theorem timeout_deletes_entry_witness:
  "pendingCommands (run [Submit ''GET'' [Arg_string ''a''], Submit ''GET'' [Arg_string ''b'']] ready)
     = [(1, \<lparr>command = ''GET'', args = [Arg_string ''a'']\<rparr>),
        (2, \<lparr>command = ''GET'', args = [Arg_string ''b'']\<rparr>)]
   \<and> pendingCommands (command_timeout 1
        (run [Submit ''GET'' [Arg_string ''a''], Submit ''GET'' [Arg_string ''b'']] ready))
     = [(2, \<lparr>command = ''GET'', args = [Arg_string ''b'']\<rparr>)]
   \<and> settled (command_timeout 1
        (run [Submit ''GET'' [Arg_string ''a''], Submit ''GET'' [Arg_string ''b'']] ready))
     = [(1, Rejected (CommandTimeoutError ''GET''))]"
proof -
  let ?s = "run [Submit ''GET'' [Arg_string ''a''], Submit ''GET'' [Arg_string ''b'']] ready"
  have p: "pendingCommands ?s
     = (1, \<lparr>command = ''GET'', args = [Arg_string ''a'']\<rparr>)
       # (2, \<lparr>command = ''GET'', args = [Arg_string ''b'']\<rparr>) # []"
    by code_simp
  have d: "distinct (map fst (pendingCommands ?s))" unfolding p by simp
  have s0: "settled ?s = []" by code_simp
  from timeout_deletes_entry[OF p d] s0 p show ?thesis by simp
qed

text \<open>
  C4, as stated: on a decode error every pending request is rejected. With \<^verbatim>\<open>PING\<close>
  pending, a decode error reported by the decoder leaves it pending and settles nothing.
\<close>

theorem decode_error_leaves_commands_pending:
  "pendingCommands (run [Submit ''PING'' [], Decoded (Failed (Unknown_prefix (CHR ''?'')))] ready)
     = [(1, \<lparr>command = ''PING'', args = []\<rparr>)]
   \<and> settled (run [Submit ''PING'' [], Decoded (Failed (Unknown_prefix (CHR ''?'')))] ready) = []"
  by code_simp

text \<open>
  C4, amended. When the decoder reports a decode error to the session, the session emits
  an \<^verbatim>\<open>error\<close> event carrying a parse error and rejects none of the pending requests: the
  pending commands, the settled promises and the connection state are, after the report,
  exactly what they were before it.
\<close>

theorem decode_error_only_emits:
  "pendingCommands (deliver (Failed e) s) = pendingCommands s
   \<and> settled (deliver (Failed e) s) = settled s
   \<and> emitted (deliver (Failed e) s) = emitted s @ [Ev_error (ParseError (Decode e))]
   \<and> state (deliver (Failed e) s) = state s"
  by (simp add: deliver_def handleParseError_def)

text \<open>
  What the handshake does with its first reply \<open>r\<close>, once \<^verbatim>\<open>connect()\<close> has resumed. The
  session wrote \<^verbatim>\<open>HELLO 3\<close>; the reply settles no command and the handshake's sink is
  removed; the handshake completes exactly for the simple string \<^verbatim>\<open>OK\<close>; another reply
  that \<^verbatim>\<open>JSON.stringify\<close> can write makes \<^verbatim>\<open>connect()\<close> throw the unexpected-response
  error in state \<^verbatim>\<open>error\<close>; a reply holding a bigint leaves \<^verbatim>\<open>connect()\<close> suspended.
\<close>

lemma handshake_outcomes:
  "written (transport_up (connect_begin new_manager)) = [encodeCommand ''HELLO'' [Arg_string ''3'']]
   \<and> settled (connect_resume (onReply_sink r (transport_up (connect_begin new_manager)))) = []
   \<and> \<not> handshake_hook (connect_resume (onReply_sink r (transport_up (connect_begin new_manager))))
   \<and> (isHandshakeComplete
          (connect_resume (onReply_sink r (transport_up (connect_begin new_manager))))
        \<longleftrightarrow> body r = Simple_string ''OK'')
   \<and> (body r \<noteq> Simple_string ''OK'' \<and> \<not> stringify_throws r \<longrightarrow>
        connect_result (connect_resume (onReply_sink r (transport_up (connect_begin new_manager))))
          = Some (Some (Unexpected_handshake_response r))
        \<and> state (connect_resume (onReply_sink r (transport_up (connect_begin new_manager))))
            = error)
   \<and> (body r \<noteq> Simple_string ''OK'' \<and> stringify_throws r \<longrightarrow>
        connect_result (connect_resume (onReply_sink r (transport_up (connect_begin new_manager))))
          = None
        \<and> state (connect_resume (onReply_sink r (transport_up (connect_begin new_manager))))
            = connected)"
  by (simp add: onReply_sink_def transport_up_def connect_begin_def new_manager_def
      handshake_reply_def resolve_handshake_def reject_handshake_def connect_resume_def
      handleParseError_def Let_def)

text \<open>
  C7. Handshake contract. \<^verbatim>\<open>HELLO 3\<close> is encoded as \<^verbatim>\<open>*2\r\n$5\r\nHELLO\r\n$1\r\n3\r\n\<close>.
  When the first reply is the integer 1 (the bytes \<^verbatim>\<open>:1\r\n\<close>), the handshake's sink
  clears its timer and then throws while building the message of the error it is about to
  reject with, because \<^verbatim>\<open>JSON.stringify\<close> cannot write a bigint. The promise is never
  settled: \<^verbatim>\<open>connect()\<close> neither returns nor fails, the state stays \<^verbatim>\<open>connected\<close>, the
  timer no longer fires, and the session only emits a parse error.
\<close>

theorem handshake_integer_reply_leaves_connect_suspended:
  "encodeCommand ''HELLO'' [Arg_string ''3'']
     = ''*2'' @ crlf @ ''$5'' @ crlf @ ''HELLO'' @ crlf @ ''$1'' @ crlf @ ''3'' @ crlf
   \<and> decode 10 ['':1'' @ crlf] = Some [Reply (plain (Integer 1))]
   \<and> connect_result (connect_resume (deliver (Reply (plain (Integer 1)))
                        (transport_up (connect_begin new_manager)))) = None
   \<and> handshake_promise (connect_resume (deliver (Reply (plain (Integer 1)))
                        (transport_up (connect_begin new_manager)))) = Unsettled
   \<and> state (connect_resume (deliver (Reply (plain (Integer 1)))
                        (transport_up (connect_begin new_manager)))) = connected
   \<and> \<not> isHandshakeComplete (connect_resume (deliver (Reply (plain (Integer 1)))
                        (transport_up (connect_begin new_manager))))
   \<and> \<not> handshake_timer (connect_resume (deliver (Reply (plain (Integer 1)))
                        (transport_up (connect_begin new_manager))))
   \<and> emitted (connect_resume (deliver (Reply (plain (Integer 1)))
                        (transport_up (connect_begin new_manager))))
       = [Ev_error (ParseError TypeError_serialize_BigInt)]
   \<and> connect_result (connect_resume (handshake_timeout (connect_resume
         (deliver (Reply (plain (Integer 1))) (transport_up (connect_begin new_manager))))))
       = None"
  by code_simp

end
